theory Spec2Isabelle
  imports Complex_Main
begin

section \<open>Shared data: time, JSON values, errors\<close>

text \<open>
  Instants are JavaScript \<^verbatim>\<open>Date\<close> values, read as milliseconds since the epoch
  (\<^verbatim>\<open>Date.now()\<close>); every comparison the store makes on a date field is a comparison of
  these integers.
\<close>

type_synonym time = int

definition hoursMs :: "int \<Rightarrow> int" where
  "hoursMs n = n * 60 * 60 * 1000"

text \<open>A rejected promise or a thrown exception carries its message.\<close>

datatype error = Error string

text \<open>The values a parsed request body is made of (an object as the list of its
  properties, each name once), and JavaScript's truthiness on them.\<close>

datatype json =
    JNull
  | JBool bool
  | JNum real
  | JStr string
  | JArr "json list"
  | JObj "(string \<times> json) list"

fun truthy :: "json \<Rightarrow> bool" where
  "truthy JNull = False"
| "truthy (JBool b) = b"
| "truthy (JNum r) = (r \<noteq> 0)"
| "truthy (JStr s) = (s \<noteq> [])"
| "truthy (JArr xs) = True"
| "truthy (JObj fs) = True"

text \<open>
  \<^verbatim>\<open>body.name\<close> on a parsed body: \<^verbatim>\<open>None\<close> is \<^verbatim>\<open>undefined\<close>. Only an object has
  properties of the names the endpoints read; \<^verbatim>\<open>null\<close> is handled by the caller, where
  the access throws.
\<close>

fun getProp :: "json \<Rightarrow> string \<Rightarrow> json option" where
  "getProp (JObj fs) k = map_of fs k"
| "getProp v k = None"

definition truthyProp :: "json option \<Rightarrow> bool" where
  "truthyProp v = (case v of None \<Rightarrow> False | Some j \<Rightarrow> truthy j)"

section \<open>The AbandonedCarts collection\<close>

record AbandonedCart =
  cart_id :: string
  cart_customerId :: string
  cartItems :: json
  cartTotal :: real
  abandonedAt :: time
  recovered :: bool
  emailSent :: bool
  reminderCount :: nat
  lastReminderAt :: "time option"

text \<open>
  \<^verbatim>\<open>wixData.query(coll).<filters>.limit(n).find()\<close>: the items of the collection that pass
  every filter, in the collection's order, cut at the page limit. The promise rejects
  when the data collaborator does not answer.
\<close>

definition wixQuery :: "bool \<Rightarrow> 'a list \<Rightarrow> ('a \<Rightarrow> bool) \<Rightarrow> nat \<Rightarrow> error + 'a list" where
  "wixQuery up coll p page =
     (if up then Inr (take page (filter p coll)) else Inl (Error ''data store unavailable''))"

text \<open>
  The filter of \<^verbatim>\<open>processAbandonedCarts\<close>:
  \<^verbatim>\<open>.ge("abandonedAt", twentyFourHoursAgo).le("abandonedAt", oneHourAgo)
   .eq("emailSent", false).eq("recovered", false)\<close>.
  Both bounds are taken from the clock reading \<open>now\<close>.
\<close>

definition firstReminderFilter :: "time \<Rightarrow> AbandonedCart \<Rightarrow> bool" where
  "firstReminderFilter now c =
     (now - hoursMs 24 \<le> abandonedAt c \<and> abandonedAt c \<le> now - hoursMs 1
      \<and> emailSent c = False \<and> recovered c = False)"

text \<open>
  The filter of \<^verbatim>\<open>sendSecondReminder\<close>:
  \<^verbatim>\<open>.ge("lastReminderAt", fortyEightHoursAgo).le("lastReminderAt", twentyFourHoursAgo)
   .eq("recovered", false).eq("reminderCount", 1)\<close>.
  A cart without \<^verbatim>\<open>lastReminderAt\<close> passes neither range filter.
\<close>

definition secondReminderFilter :: "time \<Rightarrow> AbandonedCart \<Rightarrow> bool" where
  "secondReminderFilter now c =
     (case lastReminderAt c of
        None \<Rightarrow> False
      | Some t \<Rightarrow> now - hoursMs 48 \<le> t \<and> t \<le> now - hoursMs 24
                  \<and> recovered c = False \<and> reminderCount c = 1)"

text \<open>
  The filter of \<^verbatim>\<open>post_bulkRecovery\<close>:
  \<^verbatim>\<open>const hoursOld = body.hoursOld || 1;
   const cutoffTime = new Date(Date.now() - hoursOld * 60 * 60 * 1000);
   .le("abandonedAt", cutoffTime).eq("emailSent", false).eq("recovered", false)\<close>.
  \<open>hoursOld\<close> is the request's field when it is present, a whole number of hours;
  absent or \<open>0\<close> it is falsy and the default \<open>1\<close> stands.
\<close>

definition bulkHoursOld :: "int option \<Rightarrow> int" where
  "bulkHoursOld h = (case h of None \<Rightarrow> 1 | Some n \<Rightarrow> if n = 0 then 1 else n)"

definition bulkRecoveryFilter :: "int option \<Rightarrow> time \<Rightarrow> AbandonedCart \<Rightarrow> bool" where
  "bulkRecoveryFilter h now c =
     (abandonedAt c \<le> now - hoursMs (bulkHoursOld h)
      \<and> emailSent c = False \<and> recovered c = False)"

section \<open>Customers and the collaborators' state\<close>

datatype segment = New | Regular | Loyal | VIP

record Customer =
  customer_id :: string
  segment :: "segment option"
  valueScore :: "real option"
  lastSegmentUpdate :: "time option"

text \<open>
  What the jobs and endpoints read and write: the two collections, whether the data
  collaborator answers during the call (\<open>storeUp\<close>: a call made while it does not
  answer is rejected at its query, the first thing every job does; every read and write
  of a call made while it answers succeeds), and the recovery emails handed to the email
  collaborator so far, by cart id, oldest first (\<open>outbox\<close>).
\<close>

record world =
  storeUp :: bool
  AbandonedCarts :: "AbandonedCart list"
  Customers :: "Customer list"
  outbox :: "string list"

section \<open>sendCartRecoveryEmail\<close>

text \<open>
  The answer of the email collaborator's \<^verbatim>\<open>sendTemplatedEmail\<close> for a cart: delivered,
  refused (a failure result) or thrown. The functions below take these answers as the
  parameter \<open>mail\<close>, a function of the cart as it is read from the store.
\<close>

datatype send_result = Delivered | Refused string | Crashed string

text \<open>What a call of a backend function gives its caller: a result object
  \<^verbatim>\<open>{success, message}\<close>, or an exception.\<close>

datatype call_result = Returned bool string | Thrown string

definition markReminded :: "time \<Rightarrow> AbandonedCart \<Rightarrow> AbandonedCart" where
  "markReminded now c =
     c\<lparr>emailSent := True, reminderCount := reminderCount c + 1, lastReminderAt := Some now\<rparr>"

text \<open>
  Modelled from the spec: \<^verbatim>\<open>sendCartRecoveryEmail\<close> of \<^verbatim>\<open>backend/salesBot.jsw\<close>, which
  the jobs and endpoints import and which is not among the sources. The spec (4.4, 6, 7):
  the action sends a recovery email through \<^verbatim>\<open>sendTemplatedEmail\<close> and, on a successful
  send, sets \<^verbatim>\<open>emailSent=true\<close>, advances \<^verbatim>\<open>reminderCount\<close> by one step
  (\<open>0\<close> to \<open>1\<close> on the first reminder, \<open>1\<close> to \<open>2\<close> on the second) and sets
  \<^verbatim>\<open>lastReminderAt=now\<close>; a cart that does not exist is \<^verbatim>\<open>NotFound\<close>; a failed send does
  not advance the cart's state (the policy section 9 recommends). The function gets the
  cart's id only, so it reads the cart from the store.
\<close>

definition sendCartRecoveryEmail ::
  "(AbandonedCart \<Rightarrow> send_result) \<Rightarrow> time \<Rightarrow> string \<Rightarrow> world \<Rightarrow> world \<times> call_result" where
  "sendCartRecoveryEmail mail now cid w =
     (case find (\<lambda>c. cart_id c = cid) (AbandonedCarts w) of
        None \<Rightarrow> (w, Returned False ''Cart not found'')
      | Some c \<Rightarrow>
          (case mail c of
             Delivered \<Rightarrow>
               (w\<lparr>AbandonedCarts :=
                    map (\<lambda>x. if cart_id x = cid then markReminded now x else x) (AbandonedCarts w),
                  outbox := outbox w @ [cid]\<rparr>,
                Returned True [])
           | Refused m \<Rightarrow> (w, Returned False m)
           | Crashed m \<Rightarrow> (w, Thrown m)))"

section \<open>Scheduled job: processAbandonedCarts\<close>

record cart_summary =
  processed :: nat
  successful :: nat
  failed :: nat

text \<open>
  The loop \<^verbatim>\<open>for (const cart of abandonedCarts.items)\<close> with its inner
  \<^verbatim>\<open>try/catch\<close>: a result with \<^verbatim>\<open>success\<close> counts as a success, any other result and
  any exception as a failure. The accumulator is the world and the two counters.
\<close>

fun processLoop ::
  "(AbandonedCart \<Rightarrow> send_result) \<Rightarrow> time \<Rightarrow> AbandonedCart list \<Rightarrow> world \<times> nat \<times> nat
     \<Rightarrow> world \<times> nat \<times> nat" where
  "processLoop mail now [] acc = acc"
| "processLoop mail now (cart # rest) (w, successCount, failCount) =
     (case sendCartRecoveryEmail mail now (cart_id cart) w of
        (w', Returned success m) \<Rightarrow>
          (if success then processLoop mail now rest (w', successCount + 1, failCount)
           else processLoop mail now rest (w', successCount, failCount + 1))
      | (w', Thrown m) \<Rightarrow> processLoop mail now rest (w', successCount, failCount + 1))"

text \<open>The outer \<^verbatim>\<open>catch\<close> logs and rethrows: a rejected query is \<open>Inl\<close>.\<close>

definition processAbandonedCarts ::
  "(AbandonedCart \<Rightarrow> send_result) \<Rightarrow> time \<Rightarrow> world \<Rightarrow> error + (world \<times> cart_summary)" where
  "processAbandonedCarts mail now w =
     (case wixQuery (storeUp w) (AbandonedCarts w) (firstReminderFilter now) 100 of
        Inl e \<Rightarrow> Inl e
      | Inr items \<Rightarrow>
          (case processLoop mail now items (w, 0, 0) of
             (w', successCount, failCount) \<Rightarrow>
               Inr (w', \<lparr>processed = length items, successful = successCount,
                          failed = failCount\<rparr>)))"

section \<open>Scheduled job: sendSecondReminder\<close>

text \<open>
  The loop counts every call that does not throw, whatever its result says.
\<close>

fun secondLoop ::
  "(AbandonedCart \<Rightarrow> send_result) \<Rightarrow> time \<Rightarrow> AbandonedCart list \<Rightarrow> world \<times> nat
     \<Rightarrow> world \<times> nat" where
  "secondLoop mail now [] acc = acc"
| "secondLoop mail now (cart # rest) (w, successCount) =
     (case sendCartRecoveryEmail mail now (cart_id cart) w of
        (w', Returned success m) \<Rightarrow> secondLoop mail now rest (w', successCount + 1)
      | (w', Thrown m) \<Rightarrow> secondLoop mail now rest (w', successCount))"

text \<open>The job's result is \<^verbatim>\<open>{ sent: successCount }\<close>.\<close>

definition sendSecondReminder ::
  "(AbandonedCart \<Rightarrow> send_result) \<Rightarrow> time \<Rightarrow> world \<Rightarrow> error + (world \<times> nat)" where
  "sendSecondReminder mail now w =
     (case wixQuery (storeUp w) (AbandonedCarts w) (secondReminderFilter now) 50 of
        Inl e \<Rightarrow> Inl e
      | Inr items \<Rightarrow> Inr (secondLoop mail now items (w, 0)))"

section \<open>HTTP endpoint: post_bulkRecovery\<close>

text \<open>A response of \<^verbatim>\<open>wix-http-functions\<close>: its status and its body, which is either the
  payload of the endpoint or an error object \<^verbatim>\<open>{error, message}\<close>.\<close>

datatype 'a body = Payload 'a | ErrorBody string "string option"

datatype 'a response = ok "'a body" | badRequest "'a body" | serverError "'a body"

record bulk_results =
  bulk_processed :: nat
  bulk_successful :: nat
  bulk_failed :: nat
  bulk_errors :: "(string \<times> string) list"

fun bulkLoop ::
  "(AbandonedCart \<Rightarrow> send_result) \<Rightarrow> time \<Rightarrow> AbandonedCart list \<Rightarrow> world \<times> bulk_results
     \<Rightarrow> world \<times> bulk_results" where
  "bulkLoop mail now [] acc = acc"
| "bulkLoop mail now (cart # rest) (w, results) =
     (let counted = results\<lparr>bulk_processed := bulk_processed results + 1\<rparr> in
      case sendCartRecoveryEmail mail now (cart_id cart) w of
        (w', Returned success m) \<Rightarrow>
          (if success
           then bulkLoop mail now rest
                  (w', counted\<lparr>bulk_successful := bulk_successful counted + 1\<rparr>)
           else bulkLoop mail now rest
                  (w', counted\<lparr>bulk_failed := bulk_failed counted + 1,
                               bulk_errors := bulk_errors counted @ [(cart_id cart, m)]\<rparr>))
      | (w', Thrown m) \<Rightarrow>
          bulkLoop mail now rest
            (w', counted\<lparr>bulk_failed := bulk_failed counted + 1,
                         bulk_errors := bulk_errors counted @ [(cart_id cart, m)]\<rparr>))"

text \<open>
  The request is what reading the body gives: an exception (\<open>Inl\<close>: \<^verbatim>\<open>await
  request.body.json()\<close> rejects, or the body is \<^verbatim>\<open>null\<close> and reading its property
  throws), or the body's \<^verbatim>\<open>hoursOld\<close> field (\<open>Inr\<close>). Every exception of the function's
  body ends in the one \<^verbatim>\<open>catch\<close>, which answers \<^verbatim>\<open>serverError\<close>.
\<close>

definition post_bulkRecovery ::
  "(AbandonedCart \<Rightarrow> send_result) \<Rightarrow> time \<Rightarrow> error + int option \<Rightarrow> world
     \<Rightarrow> world \<times> bulk_results response" where
  "post_bulkRecovery mail now request w =
     (case request of
        Inl (Error m) \<Rightarrow> (w, serverError (ErrorBody ''Bulk recovery failed'' (Some m)))
      | Inr h \<Rightarrow>
          (case wixQuery (storeUp w) (AbandonedCarts w) (bulkRecoveryFilter h now) 50 of
             Inl (Error m) \<Rightarrow> (w, serverError (ErrorBody ''Bulk recovery failed'' (Some m)))
           | Inr items \<Rightarrow>
               (case bulkLoop mail now items
                       (w, \<lparr>bulk_processed = 0, bulk_successful = 0, bulk_failed = 0,
                            bulk_errors = []\<rparr>) of
                  (w', results) \<Rightarrow> (w', ok (Payload results)))))"

section \<open>Scheduled job: updateCustomerSegments\<close>

text \<open>
  \<^verbatim>\<open>getCustomerValueScore\<close> is a function of \<^verbatim>\<open>backend/salesBot.jsw\<close>, not among the
  sources; the job takes its answer for each customer id as a parameter: an exception,
  or the object \<^verbatim>\<open>{success, score, segment}\<close>.
\<close>

datatype score_result = ScoreThrown string | ScoreReturned bool "real option" "segment option"

text \<open>\<^verbatim>\<open>wixData.update("Customers", item)\<close> replaces the stored item of the same
  \<^verbatim>\<open>_id\<close>. The job writes \<^verbatim>\<open>lastSegmentUpdate: new Date()\<close>; the clock reading of the
  run is \<open>now\<close>.\<close>

definition wixUpdate :: "Customer \<Rightarrow> Customer list \<Rightarrow> Customer list" where
  "wixUpdate item coll = map (\<lambda>x. if customer_id x = customer_id item then item else x) coll"

fun segmentLoop ::
  "(string \<Rightarrow> score_result) \<Rightarrow> time \<Rightarrow> Customer list \<Rightarrow> world \<times> nat \<Rightarrow> world \<times> nat" where
  "segmentLoop score now [] acc = acc"
| "segmentLoop score now (customer # rest) (w, updated) =
     (case score (customer_id customer) of
        ScoreThrown m \<Rightarrow> segmentLoop score now rest (w, updated)
      | ScoreReturned success sc seg \<Rightarrow>
          (if success \<and> segment customer \<noteq> seg
           then segmentLoop score now rest
                  (w\<lparr>Customers :=
                       wixUpdate (customer\<lparr>segment := seg, valueScore := sc,
                                           lastSegmentUpdate := Some now\<rparr>) (Customers w)\<rparr>,
                   updated + 1)
           else segmentLoop score now rest (w, updated)))"

record segment_summary =
  customers_processed :: nat
  customers_updated :: nat

definition updateCustomerSegments ::
  "(string \<Rightarrow> score_result) \<Rightarrow> time \<Rightarrow> world \<Rightarrow> error + (world \<times> segment_summary)" where
  "updateCustomerSegments score now w =
     (case wixQuery (storeUp w) (Customers w) (\<lambda>c. True) 1000 of
        Inl e \<Rightarrow> Inl e
      | Inr items \<Rightarrow>
          (case segmentLoop score now items (w, 0) of
             (w', updated) \<Rightarrow>
               Inr (w', \<lparr>customers_processed = length items, customers_updated = updated\<rparr>)))"

section \<open>The collections of housekeeping and reporting\<close>

text \<open>
  The records of \<^verbatim>\<open>BrowsingHistory\<close> and of \<^verbatim>\<open>CustomerInteractions\<close> (of their fields the
  jobs read \<^verbatim>\<open>_id\<close> and \<^verbatim>\<open>timestamp\<close>), and the orders (\<^verbatim>\<open>_createdDate\<close> and
  \<^verbatim>\<open>total\<close>, which an order may lack).
\<close>

record LogRecord =
  record_id :: string
  timestamp :: time

record Order =
  order_id :: string
  createdDate :: time
  order_total :: "real option"

text \<open>
  The object \<^verbatim>\<open>generateDailySalesReport\<close> builds and saves. \<^verbatim>\<open>avgOrderValue\<close> and
  \<^verbatim>\<open>revenueChangePercent\<close> are either the text \<^verbatim>\<open>toFixed(2)\<close> gives or the number
  \<open>0\<close>.
\<close>

record report =
  report_date :: string
  orders :: nat
  revenue :: string
  avgOrderValue :: json
  revenueChangePercent :: json
  previousDayOrders :: nat
  previousDayRevenue :: string
  generatedAt :: string

text \<open>The world of the two housekeeping jobs: the world above and four more
  collections.\<close>

record site = world +
  BrowsingHistory :: "LogRecord list"
  CustomerInteractions :: "LogRecord list"
  Orders :: "Order list"
  DailyReports :: "report list"

section \<open>Scheduled job: cleanOldData\<close>

definition daysMs :: "int \<Rightarrow> int" where
  "daysMs n = n * 24 * 60 * 60 * 1000"

text \<open>\<^verbatim>\<open>wixData.remove(collection, id)\<close> deletes the stored item of that \<^verbatim>\<open>_id\<close>.\<close>

definition wixRemove :: "('a \<Rightarrow> string) \<Rightarrow> string \<Rightarrow> 'a list \<Rightarrow> 'a list" where
  "wixRemove idOf i coll = filter (\<lambda>x. idOf x \<noteq> i) coll"

text \<open>
  The loops \<^verbatim>\<open>for (const record of old.items) { await wixData.remove(...); deleted++; }\<close>.
  They have no \<^verbatim>\<open>try/catch\<close> of their own, so a rejected removal ends the loop with
  its exception, the earlier removals done. Whether the store answers the removal of
  an id is the parameter \<open>answered\<close>.
\<close>

fun removeLoop ::
  "(string \<Rightarrow> bool) \<Rightarrow> ('a \<Rightarrow> string) \<Rightarrow> 'a list \<Rightarrow> 'a list \<times> nat
     \<Rightarrow> 'a list \<times> (error + nat)" where
  "removeLoop answered idOf [] (coll, deleted) = (coll, Inr deleted)"
| "removeLoop answered idOf (r # rest) (coll, deleted) =
     (if answered (idOf r)
      then removeLoop answered idOf rest (wixRemove idOf (idOf r) coll, deleted + 1)
      else (coll, Inl (Error ''removal rejected'')))"

record clean_summary =
  deletedBrowsingHistory :: nat
  deletedInteractions :: nat
  deletedCarts :: nat

text \<open>
  The three rounds of query and removal, in the order of the source:
  \<^verbatim>\<open>BrowsingHistory\<close> and \<^verbatim>\<open>CustomerInteractions\<close> with
  \<^verbatim>\<open>.lt("timestamp", ninetyDaysAgo).limit(1000)\<close>, then \<^verbatim>\<open>AbandonedCarts\<close> with
  \<^verbatim>\<open>.lt("abandonedAt", ninetyDaysAgo).eq("recovered", true).limit(500)\<close>. Every exception
  reaches the one outer \<^verbatim>\<open>catch\<close>, which logs and rethrows; the world is returned with
  what was removed before it. \<open>answered\<close> takes the collection's name and the id.
\<close>

definition cleanOldData ::
  "(string \<Rightarrow> string \<Rightarrow> bool) \<Rightarrow> time \<Rightarrow> site \<Rightarrow> site \<times> (error + clean_summary)" where
  "cleanOldData answered now x =
     (let ninetyDaysAgo = now - daysMs 90 in
      case wixQuery (storeUp x) (BrowsingHistory x) (\<lambda>r. timestamp r < ninetyDaysAgo) 1000 of
        Inl e \<Rightarrow> (x, Inl e)
      | Inr oldBrowsingHistory \<Rightarrow>
          (case removeLoop (answered ''BrowsingHistory'') record_id oldBrowsingHistory
                  (BrowsingHistory x, 0) of
             (history, Inl e) \<Rightarrow> (x\<lparr>BrowsingHistory := history\<rparr>, Inl e)
           | (history, Inr deletedBrowsing) \<Rightarrow>
               (let x1 = x\<lparr>BrowsingHistory := history\<rparr> in
                case wixQuery (storeUp x1) (CustomerInteractions x1)
                       (\<lambda>r. timestamp r < ninetyDaysAgo) 1000 of
                  Inl e \<Rightarrow> (x1, Inl e)
                | Inr oldInteractions \<Rightarrow>
                    (case removeLoop (answered ''CustomerInteractions'') record_id
                            oldInteractions (CustomerInteractions x1, 0) of
                       (interactions, Inl e) \<Rightarrow>
                         (x1\<lparr>CustomerInteractions := interactions\<rparr>, Inl e)
                     | (interactions, Inr deletedInteraction) \<Rightarrow>
                         (let x2 = x1\<lparr>CustomerInteractions := interactions\<rparr> in
                          case wixQuery (storeUp x2) (AbandonedCarts x2)
                                 (\<lambda>c. abandonedAt c < ninetyDaysAgo \<and> recovered c = True) 500 of
                            Inl e \<Rightarrow> (x2, Inl e)
                          | Inr oldCarts \<Rightarrow>
                              (case removeLoop (answered ''AbandonedCarts'') cart_id oldCarts
                                      (AbandonedCarts x2, 0) of
                                 (carts, Inl e) \<Rightarrow> (x2\<lparr>AbandonedCarts := carts\<rparr>, Inl e)
                               | (carts, Inr deletedCart) \<Rightarrow>
                                   (x2\<lparr>AbandonedCarts := carts\<rparr>,
                                    Inr \<lparr>deletedBrowsingHistory = deletedBrowsing,
                                         deletedInteractions = deletedInteraction,
                                         deletedCarts = deletedCart\<rparr>)))))))"

section \<open>Scheduled job: generateDailySalesReport\<close>

text \<open>
  What the job takes from the JavaScript runtime and from \<^verbatim>\<open>wix-data\<close>, as parameters:
  the renderings \<^verbatim>\<open>Date.prototype.toISOString\<close> and \<^verbatim>\<open>Number.prototype.toFixed(2)\<close>, and
  the page size of a query that sets no \<^verbatim>\<open>.limit()\<close>, which the sources do not fix.
\<close>

record runtime =
  toISOString :: "time \<Rightarrow> string"
  toFixed2 :: "real \<Rightarrow> string"
  defaultLimit :: nat

text \<open>
  \<^verbatim>\<open>wixData.query(coll).<filters>.find()\<close> as the job reads its result: \<^verbatim>\<open>items\<close>, the
  first page of the matching items, and \<^verbatim>\<open>totalCount\<close>, the number of all matching
  items.
\<close>

definition wixFind ::
  "bool \<Rightarrow> nat \<Rightarrow> 'a list \<Rightarrow> ('a \<Rightarrow> bool) \<Rightarrow> error + ('a list \<times> nat)" where
  "wixFind up pageSize coll p =
     (if up then Inr (take pageSize (filter p coll), length (filter p coll))
      else Inl (Error ''data store unavailable''))"

text \<open>\<^verbatim>\<open>items.reduce((sum, order) => sum + (order.total || 0), 0)\<close>.\<close>

definition totalOrZero :: "Order \<Rightarrow> real" where
  "totalOrZero order = (case order_total order of None \<Rightarrow> 0 | Some t \<Rightarrow> t)"

definition revenueOf :: "Order list \<Rightarrow> real" where
  "revenueOf items = foldl (\<lambda>sum order. sum + totalOrZero order) 0 items"

text \<open>\<^verbatim>\<open>s.split('T')[0]\<close>: the text before the first \<^verbatim>\<open>T\<close>.\<close>

definition beforeT :: "string \<Rightarrow> string" where
  "beforeT s = takeWhile (\<lambda>c. c \<noteq> CHR ''T'') s"

text \<open>
  The job reads the clock once (\<open>now\<close>), queries the orders of the last 24 hours and of
  the 24 hours before (\<^verbatim>\<open>.ge("_createdDate", from).lt("_createdDate", to)\<close>), builds the
  report, saves it with \<^verbatim>\<open>wixData.insert("DailyReports", report)\<close> and returns it. The
  outer \<^verbatim>\<open>catch\<close> logs and rethrows.
\<close>

definition generateDailySalesReport ::
  "runtime \<Rightarrow> time \<Rightarrow> site \<Rightarrow> error + (site \<times> report)" where
  "generateDailySalesReport rt now x =
     (let yesterday = now - hoursMs 24; dayBefore = now - hoursMs 48 in
      case wixFind (storeUp x) (defaultLimit rt) (Orders x)
             (\<lambda>order. yesterday \<le> createdDate order \<and> createdDate order < now) of
        Inl e \<Rightarrow> Inl e
      | Inr (todayItems, todayCount) \<Rightarrow>
          (case wixFind (storeUp x) (defaultLimit rt) (Orders x)
                  (\<lambda>order. dayBefore \<le> createdDate order \<and> createdDate order < yesterday) of
             Inl e \<Rightarrow> Inl e
           | Inr (previousItems, previousCount) \<Rightarrow>
               (let todayRevenue = revenueOf todayItems;
                    previousRevenue = revenueOf previousItems;
                    revenueChange =
                      (if previousRevenue > 0
                       then JStr (toFixed2 rt
                                    ((todayRevenue - previousRevenue) / previousRevenue * 100))
                       else JNum 0);
                    rep = \<lparr>report_date = beforeT (toISOString rt yesterday),
                           orders = todayCount,
                           revenue = toFixed2 rt todayRevenue,
                           avgOrderValue =
                             (if todayCount > 0
                              then JStr (toFixed2 rt (todayRevenue / real todayCount))
                              else JNum 0),
                           revenueChangePercent = revenueChange,
                           previousDayOrders = previousCount,
                           previousDayRevenue = toFixed2 rt previousRevenue,
                           generatedAt = toISOString rt now\<rparr>
                in Inr (x\<lparr>DailyReports := DailyReports x @ [rep]\<rparr>, rep))))"

section \<open>HTTP endpoint: post_cartAbandoned\<close>

text \<open>
  \<^verbatim>\<open>trackAbandonedCart\<close> is a function of \<^verbatim>\<open>backend/salesBot.jsw\<close>, not among the
  sources; the endpoint takes its answer for the three arguments as a parameter: an
  exception, or a result object with its \<^verbatim>\<open>success\<close> flag.
\<close>

datatype track_result = TrackThrown string | TrackReturned bool json

text \<open>
  The request is what \<^verbatim>\<open>await request.body.json()\<close> gives: an exception, or the parsed
  value. Reading a property of \<^verbatim>\<open>null\<close> throws; both end in the \<^verbatim>\<open>catch\<close>.
  \<^verbatim>\<open>body.cartTotal || 0\<close> keeps a truthy total and replaces any other by \<open>0\<close>.
\<close>

definition cartTotalOrZero :: "json option \<Rightarrow> json" where
  "cartTotalOrZero t = (case t of None \<Rightarrow> JNum 0 | Some j \<Rightarrow> if truthy j then j else JNum 0)"

definition respondTracked :: "track_result \<Rightarrow> json response" where
  "respondTracked r =
     (case r of
        TrackThrown m \<Rightarrow> serverError (ErrorBody ''Internal server error'' (Some m))
      | TrackReturned success result \<Rightarrow>
          (if success then ok (Payload result) else serverError (Payload result)))"

definition post_cartAbandoned ::
  "(json \<Rightarrow> json \<Rightarrow> json \<Rightarrow> track_result) \<Rightarrow> error + json \<Rightarrow> json response" where
  "post_cartAbandoned trackAbandonedCart request =
     (case request of
        Inl (Error m) \<Rightarrow> serverError (ErrorBody ''Internal server error'' (Some m))
      | Inr JNull \<Rightarrow>
          serverError (ErrorBody ''Internal server error''
            (Some ''Cannot read properties of null''))
      | Inr body \<Rightarrow>
          (case (getProp body ''customerId'', getProp body ''cartItems'') of
             (Some cid, Some items) \<Rightarrow>
               (if \<not> truthy cid \<or> \<not> truthy items
                then badRequest
                       (ErrorBody ''Missing required fields: customerId, cartItems'' None)
                else respondTracked
                       (trackAbandonedCart cid items
                          (cartTotalOrZero (getProp body ''cartTotal''))))
           | _ \<Rightarrow> badRequest
                    (ErrorBody ''Missing required fields: customerId, cartItems'' None)))"

section \<open>The chat widget: intent patterns\<close>

text \<open>
  Text is a list of 8-bit characters. \<^verbatim>\<open>toLowerCase\<close> is modelled on the letters
  \<^verbatim>\<open>A-Z\<close>: no other character occurs in a pattern, is a word character or a line
  terminator, before or after lowering.
\<close>

definition toLowerCaseChar :: "char \<Rightarrow> char" where
  "toLowerCaseChar c =
     (case map_of (zip ''ABCDEFGHIJKLMNOPQRSTUVWXYZ'' ''abcdefghijklmnopqrstuvwxyz'') c of
        None \<Rightarrow> c | Some l \<Rightarrow> l)"

definition toLowerCase :: "string \<Rightarrow> string" where
  "toLowerCase s = map toLowerCaseChar s"

text \<open>\<^verbatim>\<open>\w\<close> of a regular expression without the unicode flag.\<close>

definition isWordChar :: "char \<Rightarrow> bool" where
  "isWordChar c =
     (c \<in> set ''abcdefghijklmnopqrstuvwxyzABCDEFGHIJKLMNOPQRSTUVWXYZ0123456789_'')"

text \<open>\<^verbatim>\<open>\b\<close> at position \<open>i\<close> (between the characters \<open>i - 1\<close> and \<open>i\<close>): exactly one
  side is a word character; outside the text there is none.\<close>

definition wordBoundary :: "string \<Rightarrow> nat \<Rightarrow> bool" where
  "wordBoundary s i =
     ((0 < i \<and> i \<le> length s \<and> isWordChar (s ! (i - 1)))
        \<noteq> (i < length s \<and> isWordChar (s ! i)))"

definition occursAt :: "string \<Rightarrow> nat \<Rightarrow> string \<Rightarrow> bool" where
  "occursAt s i p = (i + length p \<le> length s \<and> take (length p) (drop i s) = p)"

text \<open>\<^verbatim>\<open>s.startsWith(p)\<close>, and \<^verbatim>\<open>/^(a|b|...)/.test(s)\<close>: the text starts with one of
  the alternatives.\<close>

definition startsWith :: "string \<Rightarrow> string \<Rightarrow> bool" where
  "startsWith s p = occursAt s 0 p"

definition startsWithAny :: "string list \<Rightarrow> string \<Rightarrow> bool" where
  "startsWithAny alts s = list_ex (\<lambda>p. startsWith s p) alts"

text \<open>\<^verbatim>\<open>/\b(a|b|...)\b/.test(s)\<close>: some alternative occurs somewhere between two word
  boundaries.\<close>

definition wordMatch :: "string list \<Rightarrow> string \<Rightarrow> bool" where
  "wordMatch alts s =
     list_ex (\<lambda>i. wordBoundary s i \<and>
                list_ex (\<lambda>p. occursAt s i p \<and> wordBoundary s (i + length p)) alts)
       [0..<Suc (length s)]"

text \<open>\<^verbatim>\<open>.\<close> matches any character but a line terminator.\<close>

definition lineTerminator :: "char \<Rightarrow> bool" where
  "lineTerminator c = (c = CHR 0x0A \<or> c = CHR 0x0D)"

text \<open>\<^verbatim>\<open>/\b(a|...)\b.*\b(x|...)/.test(s)\<close>: a first alternative between two word
  boundaries, then any characters of one line, then a word boundary followed by a
  second alternative.\<close>

definition wordThenWord :: "string list \<Rightarrow> string list \<Rightarrow> string \<Rightarrow> bool" where
  "wordThenWord alts alts' s =
     list_ex (\<lambda>i. wordBoundary s i \<and>
        list_ex (\<lambda>p. occursAt s i p \<and> wordBoundary s (i + length p) \<and>
           list_ex (\<lambda>j. \<not> list_ex lineTerminator (take (j - (i + length p)) (drop (i + length p) s))
                      \<and> wordBoundary s j \<and> list_ex (\<lambda>q. occursAt s j q) alts')
             [i + length p..<Suc (length s)]) alts)
       [0..<Suc (length s)]"

text \<open>\<^verbatim>\<open>INTENT_PATTERNS\<close>, each as its \<^verbatim>\<open>test\<close> on the lowered input (the \<^verbatim>\<open>i\<close> flag
  changes nothing on a lowered text; no pattern has the \<^verbatim>\<open>g\<close> flag, so \<^verbatim>\<open>test\<close> keeps
  no state).\<close>

definition INTENT_greeting :: "string \<Rightarrow> bool" where
  "INTENT_greeting =
     startsWithAny [''hi'', ''hello'', ''hey'', ''hola'', ''buenos dias'', ''good morning'',
                    ''good afternoon'']"

definition INTENT_productSearch :: "string \<Rightarrow> bool" where
  "INTENT_productSearch =
     wordThenWord [''looking for'', ''find'', ''search'', ''want'', ''need'', ''show me'']
                  [''product'', ''item'', ''churro'', ''food'', ''menu'']"

definition INTENT_recommendations :: "string \<Rightarrow> bool" where
  "INTENT_recommendations =
     wordMatch [''recommend'', ''suggest'', ''best'', ''popular'', ''trending'', ''top'']"

definition INTENT_discount :: "string \<Rightarrow> bool" where
  "INTENT_discount =
     wordMatch [''discount'', ''coupon'', ''promo'', ''offer'', ''deal'', ''sale'', ''code'']"

definition INTENT_help :: "string \<Rightarrow> bool" where
  "INTENT_help = wordMatch [''help'', ''support'', ''question'', ''problem'', ''issue'']"

definition INTENT_cart :: "string \<Rightarrow> bool" where
  "INTENT_cart =
     wordMatch [''cart'', ''basket'', ''checkout'', ''buy'', ''purchase'', ''order'']"

definition INTENT_price :: "string \<Rightarrow> bool" where
  "INTENT_price = wordMatch [''price'', ''cost'', ''how much'', ''expensive'', ''cheap'']"

definition INTENT_shipping :: "string \<Rightarrow> bool" where
  "INTENT_shipping =
     wordMatch [''ship'', ''deliver'', ''shipping'', ''delivery'', ''when'', ''arrive'']"

definition INTENT_hours :: "string \<Rightarrow> bool" where
  "INTENT_hours = wordMatch [''hour'', ''open'', ''close'', ''time'', ''schedule'']"

definition INTENT_location :: "string \<Rightarrow> bool" where
  "INTENT_location =
     wordMatch [''location'', ''address'', ''where'', ''find you'', ''store'']"

definition INTENT_thanks :: "string \<Rightarrow> bool" where
  "INTENT_thanks = wordMatch [''thank'', ''thanks'', ''gracias'', ''appreciate'']"

definition INTENT_bye :: "string \<Rightarrow> bool" where
  "INTENT_bye = wordMatch [''bye'', ''goodbye'', ''adios'', ''see you'', ''later'']"

section \<open>The chat widget: state and replies\<close>

text \<open>Products and offers are what the backend returns; the widget reads the fields it
  renders.\<close>

record product =
  product_name :: string
  product_price :: "real option"
  productPageUrl :: "string option"

record offer =
  offer_title :: string
  offer_description :: string
  offer_code :: string

datatype sender = bot | user

datatype message_type = text_type | products_type | offer_type

datatype message_data = no_data | product_data "product list" | offer_data "offer option"

record message =
  message_id :: time
  message_sender :: sender
  message_text :: string
  message_type :: message_type
  message_data :: message_data
  message_timestamp :: time

text \<open>\<^verbatim>\<open>class ChatBotState\<close>; the module holds one instance,
  \<^verbatim>\<open>let chatState = new ChatBotState()\<close>, which every function below reads and writes.
  It is passed and returned explicitly here.\<close>

record ChatBotState =
  isOpen :: bool
  messages :: "message list"
  customerId :: "string option"
  sessionId :: "string option"
  chat_context :: "(string \<times> string) list"

definition newChatBotState :: ChatBotState where
  "newChatBotState =
     \<lparr>isOpen = False, messages = [], customerId = None, sessionId = None, chat_context = []\<rparr>"

definition addMessage ::
  "time \<Rightarrow> sender \<Rightarrow> string \<Rightarrow> message_type \<Rightarrow> message_data \<Rightarrow> ChatBotState \<Rightarrow> ChatBotState" where
  "addMessage now who txt ty dat st =
     st\<lparr>messages := messages st @
          [\<lparr>message_id = now, message_sender = who, message_text = txt, message_type = ty,
            message_data = dat, message_timestamp = now\<rparr>]\<rparr>"

definition setContext :: "string \<Rightarrow> string \<Rightarrow> ChatBotState \<Rightarrow> ChatBotState" where
  "setContext k v st = st\<lparr>chat_context := (k, v) # filter (\<lambda>kv. fst kv \<noteq> k) (chat_context st)\<rparr>"

definition getContext :: "string \<Rightarrow> ChatBotState \<Rightarrow> string option" where
  "getContext k st = map_of (chat_context st) k"

text \<open>The texts, without their characters outside ASCII (pictographs, inverted marks,
  bullets); the help text's line breaks are written as spaces.\<close>

definition BOT_CONFIG_greeting :: string where
  "BOT_CONFIG_greeting =
     ''Hola! Welcome to Don Churro! I'm here to help you find the perfect products. What can I help you with today?''"

definition RESPONSES_greeting :: "string list" where
  "RESPONSES_greeting =
     [''Hola! How can I help you today?'',
      ''Welcome! Looking for something delicious?'',
      ''Hi there! Ready to discover our amazing churros?'']"

definition RESPONSES_thanks :: "string list" where
  "RESPONSES_thanks =
     [''You're welcome! Is there anything else I can help with?'',
      ''My pleasure! Let me know if you need anything else!'',
      ''De nada! Happy to help!'']"

definition RESPONSES_bye :: "string list" where
  "RESPONSES_bye =
     [''Goodbye! Thanks for visiting Don Churro!'',
      ''Adios! Come back soon!'',
      ''Take care! Hope to see you again!'']"

definition RESPONSES_shipping :: string where
  "RESPONSES_shipping =
     ''We offer fast shipping! Standard delivery takes 3-5 business days. Express shipping (1-2 days) is also available at checkout!''"

definition RESPONSES_hours :: string where
  "RESPONSES_hours =
     ''We're here for you! Online orders can be placed 24/7. Our customer support is available Monday-Friday, 9 AM - 6 PM.''"

definition RESPONSES_location :: string where
  "RESPONSES_location =
     ''You can find all our store locations on our Locations page! Would you like me to take you there?''"

definition RESPONSES_fallback :: "string list" where
  "RESPONSES_fallback =
     [''I'm not sure I understood that. Could you rephrase?'',
      ''Let me connect you with our support team for that question. In the meantime, can I help you find a product?'',
      ''That's a great question! For detailed assistance, please contact our support. How else can I help?'']"

definition cartText :: string where
  "cartText =
     ''Ready to checkout? Click here to view your cart and complete your order! [View Cart](/cart)''"

definition helpText :: string where
  "helpText =
     ''I can help you with: Finding products Getting discounts Checking out Shipping info General questions Just ask!''"

definition menuText :: string where
  "menuText = ''Check out our full menu for all our delicious options! [View Menu](/menu)''"

definition productsText :: string where
  "productsText = ''Here are some products you might love!''"

definition offerText :: string where
  "offerText = ''Great news! Here's a special offer just for you:''"

definition noOfferText :: string where
  "noOfferText =
     ''I don't have any special offers right now, but check our promotions page for current deals!''"

definition dealsText :: string where
  "dealsText = ''Check our promotions page for current deals! [View Deals](/deals)''"

text \<open>A reply of the dispatcher: \<^verbatim>\<open>{type: 'text', text}\<close>,
  \<^verbatim>\<open>{type: 'products', text, data}\<close> or \<^verbatim>\<open>{type: 'offer', text, data}\<close>.\<close>

datatype reply = text_reply string | products_reply string "product list" | offer_reply string "offer option"

text \<open>
  The backend functions the widget imports from \<^verbatim>\<open>backend/salesBot.jsw\<close> are not among
  the sources; the widget takes their answers as parameters: an exception, or the result
  object (\<^verbatim>\<open>{success, recommendations}\<close>, \<^verbatim>\<open>{success, offer}\<close>; a field that is not
  there is \<open>None\<close>). \<open>mathRandom\<close> is the value \<^verbatim>\<open>Math.random()\<close> gives the call,
  \<open>0 \<le> r < 1\<close>.
\<close>

datatype recommendations_result =
  RecommendationsThrown string | RecommendationsReturned bool "product list option"

datatype offer_result = OfferThrown string | OfferReturned bool "offer option"

record engines =
  getPersonalizedRecommendations :: "string \<Rightarrow> nat \<Rightarrow> recommendations_result"
  getTrendingProducts :: "nat \<Rightarrow> recommendations_result"
  getPersonalizedOffer :: "string option \<Rightarrow> offer_result"
  mathRandom :: real

text \<open>\<^verbatim>\<open>responses[Math.floor(Math.random() * responses.length)]\<close>; the index is within
  a non-empty list for every value \<^verbatim>\<open>Math.random()\<close> can give.\<close>

definition getRandomResponse :: "real \<Rightarrow> string list \<Rightarrow> string" where
  "getRandomResponse r responses = responses ! nat \<lfloor>r * real (length responses)\<rfloor>"

text \<open>\<^verbatim>\<open>chatState.customerId && !chatState.customerId.startsWith('guest_')\<close>: a customer
  id that is set, not empty and not a guest's.\<close>

definition knownCustomer :: "ChatBotState \<Rightarrow> bool" where
  "knownCustomer st =
     (case customerId st of
        None \<Rightarrow> False
      | Some cid \<Rightarrow> cid \<noteq> [] \<and> \<not> startsWith cid ''guest_'')"

text \<open>\<^verbatim>\<open>handleProductRecommendation\<close>. Reading \<^verbatim>\<open>.length\<close> of recommendations that are
  not there throws, and the \<^verbatim>\<open>catch\<close> answers the menu text as well.\<close>

definition handleProductRecommendation :: "engines \<Rightarrow> ChatBotState \<Rightarrow> reply" where
  "handleProductRecommendation e st =
     (case (case customerId st of
              None \<Rightarrow> getTrendingProducts e 3
            | Some cid \<Rightarrow>
                if cid \<noteq> [] \<and> \<not> startsWith cid ''guest_''
                then getPersonalizedRecommendations e cid 3
                else getTrendingProducts e 3) of
        RecommendationsThrown m \<Rightarrow> text_reply menuText
      | RecommendationsReturned success recs \<Rightarrow>
          (if success
           then (case recs of
                   None \<Rightarrow> text_reply menuText
                 | Some ps \<Rightarrow>
                     if length ps > 0 then products_reply productsText ps
                     else text_reply menuText)
           else text_reply menuText))"

definition handleDiscountRequest :: "engines \<Rightarrow> ChatBotState \<Rightarrow> reply" where
  "handleDiscountRequest e st =
     (case getPersonalizedOffer e (customerId st) of
        OfferThrown m \<Rightarrow> text_reply dealsText
      | OfferReturned success off \<Rightarrow>
          (if success then offer_reply offerText off else text_reply noOfferText))"

text \<open>\<^verbatim>\<open>processUserInput\<close>: the chain of tests on the lowered input, in the order of the
  source.\<close>

definition processUserInput :: "engines \<Rightarrow> ChatBotState \<Rightarrow> string \<Rightarrow> reply" where
  "processUserInput e st input =
     (let lowerInput = toLowerCase input in
      if INTENT_greeting lowerInput
        then text_reply (getRandomResponse (mathRandom e) RESPONSES_greeting)
      else if INTENT_recommendations lowerInput \<or> INTENT_productSearch lowerInput
        then handleProductRecommendation e st
      else if INTENT_discount lowerInput
        then handleDiscountRequest e st
      else if INTENT_cart lowerInput
        then text_reply cartText
      else if INTENT_shipping lowerInput
        then text_reply RESPONSES_shipping
      else if INTENT_hours lowerInput
        then text_reply RESPONSES_hours
      else if INTENT_location lowerInput
        then text_reply RESPONSES_location
      else if INTENT_thanks lowerInput
        then text_reply (getRandomResponse (mathRandom e) RESPONSES_thanks)
      else if INTENT_bye lowerInput
        then text_reply (getRandomResponse (mathRandom e) RESPONSES_bye)
      else if INTENT_help lowerInput
        then text_reply helpText
      else text_reply (getRandomResponse (mathRandom e) RESPONSES_fallback))"

section \<open>The chat widget: initialisation and sending a message\<close>

text \<open>The answer of \<^verbatim>\<open>currentMember.getMember()\<close>: an exception, or the member's id
  (\<open>None\<close>: no member is logged in).\<close>

datatype member_result = MemberThrown string | MemberReturned "string option"

text \<open>
  \<^verbatim>\<open>initializeChatBot\<close>. \<open>stored\<close> is what \<^verbatim>\<open>session.getItem('salesBotSessionId')\<close>
  gives, \<open>stamp\<close> is \<^verbatim>\<open>Date.now().toString(36)\<close>. The result is the state and
  \<^verbatim>\<open>success\<close>. The wiring of the page's elements is not modelled.
\<close>

definition initializeChatBot ::
  "string option \<Rightarrow> string \<Rightarrow> member_result \<Rightarrow> time \<Rightarrow> ChatBotState \<Rightarrow> ChatBotState \<times> bool" where
  "initializeChatBot stored stamp member now st =
     (let sid = (case stored of
                   None \<Rightarrow> ''session_'' @ stamp
                 | Some s \<Rightarrow> if s \<noteq> [] then s else ''session_'' @ stamp);
          st1 = st\<lparr>sessionId := Some sid\<rparr>
      in case member of
           MemberThrown m \<Rightarrow> (st1, False)
         | MemberReturned mid \<Rightarrow>
             (addMessage now bot BOT_CONFIG_greeting text_type no_data
                (st1\<lparr>customerId :=
                       Some (case mid of Some i \<Rightarrow> i | None \<Rightarrow> ''guest_'' @ sid)\<rparr>),
              True))"




section \<open>Discount codes\<close>

record DiscountCode =
  code :: string
  discountType :: string
  discountValue :: real
  minOrderAmount :: real
  expiresAt :: time
  usageLimit :: nat
  usedCount :: nat
  isActive :: bool

datatype invalid_reason = expired | inactive | limit_reached | below_minimum

datatype validation = valid | invalid invalid_reason

text \<open>
  Modelled from the spec: \<^verbatim>\<open>validateCode(code, orderAmount)\<close> of the Offer Engine; no
  source file holds a code validity check. The spec (3, 4.3, 8): a code is valid iff
  \<^verbatim>\<open>isActive\<close>, \<^verbatim>\<open>now < expiresAt\<close>, \<^verbatim>\<open>usedCount < usageLimit\<close> and
  \<^verbatim>\<open>orderAmount >= minOrderAmount\<close>; otherwise the answer is \<^verbatim>\<open>invalid\<close> with the
  reason \<^verbatim>\<open>expired | inactive | limit_reached | below_minimum\<close>, tried here in the
  order the spec lists them; a successful validation consumes the code, a single
  increment of \<^verbatim>\<open>usedCount\<close> made only below the limit.
\<close>

definition checkCode :: "time \<Rightarrow> DiscountCode \<Rightarrow> real \<Rightarrow> validation" where
  "checkCode now dc orderAmount =
     (if \<not> now < expiresAt dc then invalid expired
      else if \<not> isActive dc then invalid inactive
      else if \<not> usedCount dc < usageLimit dc then invalid limit_reached
      else if \<not> minOrderAmount dc \<le> orderAmount then invalid below_minimum
      else valid)"

definition consume :: "DiscountCode \<Rightarrow> DiscountCode" where
  "consume dc = (if usedCount dc < usageLimit dc then dc\<lparr>usedCount := usedCount dc + 1\<rparr> else dc)"

definition validateCode :: "time \<Rightarrow> DiscountCode \<Rightarrow> real \<Rightarrow> DiscountCode \<times> validation" where
  "validateCode now dc orderAmount =
     (case checkCode now dc orderAmount of
        valid \<Rightarrow> (consume dc, valid)
      | invalid r \<Rightarrow> (dc, invalid r))"

section \<open>Vocabulary for the cart-recovery and segmentation properties\<close>

text \<open>The world after calling \<^verbatim>\<open>sendCartRecoveryEmail\<close> for each id in turn: what the
  three loops do to the world, apart from their counters.\<close>

fun sendEach ::
  "(AbandonedCart \<Rightarrow> send_result) \<Rightarrow> time \<Rightarrow> string list \<Rightarrow> world \<Rightarrow> world" where
  "sendEach mail now [] w = w"
| "sendEach mail now (cid # rest) w =
     sendEach mail now rest (fst (sendCartRecoveryEmail mail now cid w))"

text \<open>The emails dispatched between an earlier world and a later one.\<close>

definition newlySent :: "world \<Rightarrow> world \<Rightarrow> string list" where
  "newlySent w w' = drop (length (outbox w)) (outbox w')"

text \<open>The three passes that select carts and send reminders, and the world each leaves:
  a pass whose query is rejected has written nothing.\<close>

datatype pass = FirstReminder | SecondReminder | BulkRecovery "int option"

definition passEffect ::
  "(AbandonedCart \<Rightarrow> send_result) \<Rightarrow> time \<Rightarrow> pass \<Rightarrow> world \<Rightarrow> world" where
  "passEffect mail now p w =
     (case p of
        FirstReminder \<Rightarrow>
          (case processAbandonedCarts mail now w of Inl e \<Rightarrow> w | Inr (w', s) \<Rightarrow> w')
      | SecondReminder \<Rightarrow>
          (case sendSecondReminder mail now w of Inl e \<Rightarrow> w | Inr (w', n) \<Rightarrow> w')
      | BulkRecovery h \<Rightarrow> fst (post_bulkRecovery mail now (Inr h) w))"

text \<open>Any number of passes in a row, each with the email collaborator's answers during
  the pass, its clock reading and its kind.\<close>

fun runPasses ::
  "((AbandonedCart \<Rightarrow> send_result) \<times> time \<times> pass) list \<Rightarrow> world \<Rightarrow> world" where
  "runPasses [] w = w"
| "runPasses ((mail, now, p) # rest) w = runPasses rest (passEffect mail now p w)"

text \<open>The states of the reminder lifecycle: an unemailed cart has count \<open>0\<close>, and the
  count is at most \<open>2\<close>. A cart is created in such a state
  (\<^verbatim>\<open>emailSent=false, reminderCount=0\<close>).\<close>

definition lifecycleState :: "AbandonedCart \<Rightarrow> bool" where
  "lifecycleState c = (reminderCount c \<le> 2 \<and> (emailSent c \<or> reminderCount c = 0))"

text \<open>Ids are unique in a collection.\<close>

definition uniqueCartIds :: "world \<Rightarrow> bool" where
  "uniqueCartIds w = distinct (map cart_id (AbandonedCarts w))"

definition uniqueCustomerIds :: "world \<Rightarrow> bool" where
  "uniqueCustomerIds w = distinct (map customer_id (Customers w))"

text \<open>A page read from the store: items of the collection with pairwise different ids,
  in a collection of unique ids.\<close>

definition page :: "world \<Rightarrow> AbandonedCart list \<Rightarrow> bool" where
  "page w items =
     (distinct (map cart_id (AbandonedCarts w)) \<and> set items \<subseteq> set (AbandonedCarts w)
      \<and> distinct (map cart_id items))"

definition customerPage :: "world \<Rightarrow> Customer list \<Rightarrow> bool" where
  "customerPage w items =
     (distinct (map customer_id (Customers w)) \<and> set items \<subseteq> set (Customers w)
      \<and> distinct (map customer_id items))"

text \<open>Whether a send threw, and the message a failed send reports.\<close>

definition threw :: "send_result \<Rightarrow> bool" where
  "threw r = (case r of Crashed m \<Rightarrow> True | _ \<Rightarrow> False)"

definition failureMessage :: "send_result \<Rightarrow> string" where
  "failureMessage r = (case r of Delivered \<Rightarrow> [] | Refused m \<Rightarrow> m | Crashed m \<Rightarrow> m)"

text \<open>What the segmentation job does to one customer: whether it writes the customer
  back, and the item it writes.\<close>

definition needsUpdate :: "(string \<Rightarrow> score_result) \<Rightarrow> Customer \<Rightarrow> bool" where
  "needsUpdate score c =
     (case score (customer_id c) of
        ScoreThrown m \<Rightarrow> False
      | ScoreReturned success sc seg \<Rightarrow> success \<and> segment c \<noteq> seg)"

definition rescored :: "(string \<Rightarrow> score_result) \<Rightarrow> time \<Rightarrow> Customer \<Rightarrow> Customer" where
  "rescored score now c =
     (case score (customer_id c) of
        ScoreThrown m \<Rightarrow> c
      | ScoreReturned success sc seg \<Rightarrow>
          c\<lparr>segment := seg, valueScore := sc, lastSegmentUpdate := Some now\<rparr>)"

section \<open>Vocabulary for the chat properties\<close>

text \<open>
  The dispatcher as the spec words it (4.5, 9): an explicit ordered list of (predicate,
  handler) pairs, in the order greeting, product-search/recommendation, discount,
  cart/checkout, shipping, hours, location, thanks, goodbye, help, evaluated in sequence
  with first-match-wins semantics, and a fallback for unmatched input. It is compared
  with \<^verbatim>\<open>processUserInput\<close>, the chain of the source.
\<close>

definition dispatchTable :: "engines \<Rightarrow> ChatBotState \<Rightarrow> ((string \<Rightarrow> bool) \<times> reply) list" where
  "dispatchTable e st =
     [(INTENT_greeting, text_reply (getRandomResponse (mathRandom e) RESPONSES_greeting)),
      (\<lambda>s. INTENT_recommendations s \<or> INTENT_productSearch s, handleProductRecommendation e st),
      (INTENT_discount, handleDiscountRequest e st),
      (INTENT_cart, text_reply cartText),
      (INTENT_shipping, text_reply RESPONSES_shipping),
      (INTENT_hours, text_reply RESPONSES_hours),
      (INTENT_location, text_reply RESPONSES_location),
      (INTENT_thanks, text_reply (getRandomResponse (mathRandom e) RESPONSES_thanks)),
      (INTENT_bye, text_reply (getRandomResponse (mathRandom e) RESPONSES_bye)),
      (INTENT_help, text_reply helpText)]"

definition firstMatchWins :: "((string \<Rightarrow> bool) \<times> reply) list \<Rightarrow> reply \<Rightarrow> string \<Rightarrow> reply" where
  "firstMatchWins table fallback s =
     (case find (\<lambda>entry. fst entry s) table of
        Some entry \<Rightarrow> snd entry
      | None \<Rightarrow> fallback)"

text \<open>
  What the recommendation handler makes of an engine's answer: the products, when the
  call succeeded with a non-empty list; nothing when it threw, failed, gave no list or gave
  an empty one. The reply carries the products, or else is the canned menu text.
\<close>

definition productsOf :: "recommendations_result \<Rightarrow> product list option" where
  "productsOf r =
     (case r of
        RecommendationsThrown m \<Rightarrow> None
      | RecommendationsReturned success recs \<Rightarrow>
          (if success
           then (case recs of None \<Rightarrow> None | Some ps \<Rightarrow> if ps = [] then None else Some ps)
           else None))"

definition recommendationReply :: "recommendations_result \<Rightarrow> reply" where
  "recommendationReply r =
     (case productsOf r of
        Some ps \<Rightarrow> products_reply productsText ps
      | None \<Rightarrow> text_reply menuText)"

section \<open>Concrete scenarios\<close>

subsection \<open>Carts\<close>

text \<open>An unemailed, unrecovered cart abandoned at the given instant; the same cart
  reminded once at instant 0; a recovered cart.\<close>

definition agedCart :: "time \<Rightarrow> AbandonedCart" where
  "agedCart t =
     \<lparr>cart_id = ''cart-1'', cart_customerId = ''customer-1'', cartItems = JArr [],
      cartTotal = 30, abandonedAt = t, recovered = False, emailSent = False,
      reminderCount = 0, lastReminderAt = None\<rparr>"

definition remindedCart :: AbandonedCart where
  "remindedCart = (agedCart 0)\<lparr>emailSent := True, reminderCount := 1, lastReminderAt := Some 0\<rparr>"

definition recoveredCart :: AbandonedCart where
  "recoveredCart = (agedCart 0)\<lparr>cart_id := ''cart-2'', recovered := True\<rparr>"

text \<open>A store of 101 carts of different ids, each unemailed, unrecovered and abandoned at
  instant 0.\<close>

definition numberedCart :: "nat \<Rightarrow> AbandonedCart" where
  "numberedCart n = (agedCart 0)\<lparr>cart_id := replicate n CHR ''c''\<rparr>"


text \<open>A store of one cart, the same store after the cart's reminder at 2 hours, the same
  store not answering, and a store with an unemailed and a recovered cart.\<close>

definition soloWorld :: world where
  "soloWorld = \<lparr>storeUp = True, AbandonedCarts = [agedCart 0], Customers = [], outbox = []\<rparr>"


definition offlineWorld :: world where
  "offlineWorld = soloWorld\<lparr>storeUp := False\<rparr>"

definition mixedWorld :: world where
  "mixedWorld =
     \<lparr>storeUp = True, AbandonedCarts = [agedCart 0, recoveredCart], Customers = [], outbox = []\<rparr>"

subsection \<open>Customers\<close>

text \<open>A customer stored as New and one stored as Regular, a scoring that puts every
  customer in Regular, and the stores before and after the segmentation job at
  instant 7.\<close>

definition newcomer :: Customer where
  "newcomer = \<lparr>customer_id = ''customer-1'', segment = Some New, valueScore = None,
               lastSegmentUpdate = None\<rparr>"

definition regular :: Customer where
  "regular = \<lparr>customer_id = ''customer-2'', segment = Some Regular, valueScore = Some 120,
              lastSegmentUpdate = Some 1\<rparr>"

definition regularScore :: "string \<Rightarrow> score_result" where
  "regularScore i = ScoreReturned True (Some 120) (Some Regular)"



subsection \<open>Items that fail, and housekeeping\<close>

text \<open>
  A store read at the instant of 30 hours: two unemailed carts abandoned 2 hours before
  and two carts reminded at instant 0, with the two customers; an email collaborator that
  throws for the first cart of each kind and delivers for the other; a scoring that
  throws for the first customer and puts the second in VIP, and one that answers for the
  first customer with the segment already stored.
\<close>

definition busyWorld :: world where
  "busyWorld =
     \<lparr>storeUp = True,
      AbandonedCarts =
        [(agedCart (hoursMs 28))\<lparr>cart_id := ''cart-a''\<rparr>,
         (agedCart (hoursMs 28))\<lparr>cart_id := ''cart-b''\<rparr>,
         remindedCart\<lparr>cart_id := ''cart-c''\<rparr>,
         remindedCart\<lparr>cart_id := ''cart-d''\<rparr>],
      Customers = [newcomer, regular], outbox = []\<rparr>"

definition flakyMail :: "AbandonedCart \<Rightarrow> send_result" where
  "flakyMail c =
     (if cart_id c = ''cart-a'' \<or> cart_id c = ''cart-c'' then Crashed ''mail service timeout''
      else Delivered)"

definition flakyScore :: "string \<Rightarrow> score_result" where
  "flakyScore i =
     (if i = ''customer-1'' then ScoreThrown ''score unavailable''
      else ScoreReturned True (Some 900) (Some VIP))"

definition steadyScore :: "string \<Rightarrow> score_result" where
  "steadyScore i =
     (if i = ''customer-1'' then ScoreReturned True None (Some New)
      else ScoreReturned True (Some 900) (Some VIP))"

text \<open>
  A site read at the instant of 100 days: a recovered cart abandoned at instant 0 and an
  unrecovered one of the day before, a browsing record and a chat record of instant 0, a
  browsing record of the day before, an order of 30 hours ago and two of the last two
  hours, one of them without a total; and the same site not answering.
\<close>

definition shop :: site where
  "shop =
     \<lparr>storeUp = True, AbandonedCarts = [recoveredCart, agedCart (daysMs 99)], Customers = [],
      outbox = [],
      BrowsingHistory = [\<lparr>record_id = ''view-1'', timestamp = 0\<rparr>,
                         \<lparr>record_id = ''view-2'', timestamp = daysMs 99\<rparr>],
      CustomerInteractions = [\<lparr>record_id = ''chat-1'', timestamp = 0\<rparr>],
      Orders = [\<lparr>order_id = ''order-1'', createdDate = daysMs 100 - hoursMs 30,
                  order_total = Some 20\<rparr>,
                \<lparr>order_id = ''order-2'', createdDate = daysMs 100 - hoursMs 2,
                  order_total = Some 30\<rparr>,
                \<lparr>order_id = ''order-3'', createdDate = daysMs 100 - hoursMs 1,
                  order_total = None\<rparr>],
      DailyReports = []\<rparr>"

definition closedShop :: site where
  "closedShop = shop\<lparr>storeUp := False\<rparr>"

subsection \<open>A discount code\<close>

text \<open>The code of the scenario, active, expiring at instant 1000.\<close>

definition SAVE10 :: DiscountCode where
  "SAVE10 =
     \<lparr>code = ''SAVE10'', discountType = ''percentage'', discountValue = 10,
      minOrderAmount = 20, expiresAt = 1000, usageLimit = 1, usedCount = 0, isActive = True\<rparr>"

subsection \<open>Conversations\<close>

text \<open>The two questions.\<close>

definition discountQuestion :: string where
  "discountQuestion = ''hi, do you have any discount codes''"

definition recommendQuestion :: string where
  "recommendQuestion = ''Can you recommend something? I need help''"

text \<open>Two products and engines that answer with them: personalized recommendations
  give the churro, trending products the flan; no offer; the random draw 0.\<close>

definition churro :: product where
  "churro = \<lparr>product_name = ''Churro clasico'', product_price = Some 4, productPageUrl = None\<rparr>"

definition flan :: product where
  "flan = \<lparr>product_name = ''Flan'', product_price = Some 5, productPageUrl = None\<rparr>"

definition sampleEngines :: engines where
  "sampleEngines =
     \<lparr>getPersonalizedRecommendations = (\<lambda>cid n. RecommendationsReturned True (Some [churro])),
      getTrendingProducts = (\<lambda>n. RecommendationsReturned True (Some [flan])),
      getPersonalizedOffer = (\<lambda>cid. OfferReturned False None),
      mathRandom = 0\<rparr>"

text \<open>
  Two conversations on the module's one state: the first is initialised for the member
  \<^verbatim>\<open>member-1\<close>, then a second is initialised for a visitor who is not logged in. And the
  first conversation after one message of the member.
\<close>

definition memberState :: ChatBotState where
  "memberState =
     fst (initializeChatBot None ''a1'' (MemberReturned (Some ''member-1'')) 1 newChatBotState)"

definition sharedState :: ChatBotState where
  "sharedState = fst (initializeChatBot None ''b2'' (MemberReturned None) 2 memberState)"


subsection \<open>Webhook requests\<close>

text \<open>A body without \<^verbatim>\<open>cartTotal\<close> and with an empty item list, a body with a total,
  and a \<^verbatim>\<open>trackAbandonedCart\<close> that succeeds and reports what it was given.\<close>

definition bareRequest :: json where
  "bareRequest = JObj [(''customerId'', JStr ''customer-1''), (''cartItems'', JArr [])]"

definition pricedRequest :: json where
  "pricedRequest =
     JObj [(''customerId'', JStr ''customer-1''), (''cartItems'', JArr []),
           (''cartTotal'', JNum 42)]"

definition echoTracker :: "json \<Rightarrow> json \<Rightarrow> json \<Rightarrow> track_result" where
  "echoTracker cid items tot =
     TrackReturned True (JObj [(''customerId'', cid), (''cartTotal'', tot)])"

section \<open>Auxiliary facts\<close>

subsection \<open>The store and sendCartRecoveryEmail\<close>

text \<open>In a store of unique ids an id finds its cart, so a call of
  \<^verbatim>\<open>sendCartRecoveryEmail\<close> for a cart of the store reminds that cart when its email is
  delivered and changes nothing otherwise; the rest of a page stays a page.\<close>

lemma find_unique:
  "distinct (map f xs) \<Longrightarrow> c \<in> set xs \<Longrightarrow> find (\<lambda>x. f x = f c) xs = Some c"
proof (induction xs)
  case Nil then show ?case by simp
next
  case (Cons a xs)
  then show ?case by (auto simp: image_iff)
qed

lemma cart_id_markReminded [simp]: "cart_id (markReminded now c) = cart_id c"
  by (simp add: markReminded_def)

lemma send_frame:
  "storeUp (fst (sendCartRecoveryEmail mail now cid w)) = storeUp w \<and>
   Customers (fst (sendCartRecoveryEmail mail now cid w)) = Customers w \<and>
   map cart_id (AbandonedCarts (fst (sendCartRecoveryEmail mail now cid w))) = map cart_id (AbandonedCarts w)"
  by (auto simp: sendCartRecoveryEmail_def o_def split: option.splits send_result.splits)

lemma send_known:
  assumes "distinct (map cart_id (AbandonedCarts w))" "c \<in> set (AbandonedCarts w)"
  shows "sendCartRecoveryEmail mail now (cart_id c) w =
     (case mail c of
        Delivered \<Rightarrow>
          (w\<lparr>AbandonedCarts := map (\<lambda>x. if x = c then markReminded now c else x) (AbandonedCarts w),
             outbox := outbox w @ [cart_id c]\<rparr>, Returned True [])
      | Refused m \<Rightarrow> (w, Returned False m)
      | Crashed m \<Rightarrow> (w, Thrown m))"
proof -
  have f: "find (\<lambda>x. cart_id x = cart_id c) (AbandonedCarts w) = Some c"
    using find_unique[OF assms] .
  have m: "map (\<lambda>x. if cart_id x = cart_id c then markReminded now x else x) (AbandonedCarts w)
         = map (\<lambda>x. if x = c then markReminded now c else x) (AbandonedCarts w)"
    using assms by (intro map_cong) (auto simp: distinct_map inj_on_def)
  show ?thesis
    by (simp add: sendCartRecoveryEmail_def f m split: send_result.splits)
qed

lemma page_step:
  assumes "page w (c # rest)"
  shows "page (fst (sendCartRecoveryEmail mail now (cart_id c) w)) rest"
proof -
  let ?w1 = "fst (sendCartRecoveryEmail mail now (cart_id c) w)"
  have d: "distinct (map cart_id (AbandonedCarts w))" and cin: "c \<in> set (AbandonedCarts w)"
    and sub: "set rest \<subseteq> set (AbandonedCarts w)" and nin: "cart_id c \<notin> cart_id ` set rest"
    and dr: "distinct (map cart_id rest)"
    using assms by (auto simp: page_def)
  have ids: "map cart_id (AbandonedCarts ?w1) = map cart_id (AbandonedCarts w)"
    using send_frame by blast
  have "r \<in> set (AbandonedCarts ?w1)" if "r \<in> set rest" for r
  proof -
    have "r \<noteq> c" using that nin by auto
    moreover have "r \<in> set (AbandonedCarts w)" using that sub by auto
    ultimately show ?thesis
      by (auto simp: send_known[OF d cin] split: send_result.splits)
  qed
  then show ?thesis using d dr ids by (auto simp: page_def)
qed

lemma page_Nil: "uniqueCartIds w \<Longrightarrow> page w []"
  by (simp add: page_def uniqueCartIds_def)

lemma page_query:
  "uniqueCartIds w \<Longrightarrow> page w (take n (filter p (AbandonedCarts w)))"
proof -
  assume u: "uniqueCartIds w"
  have "distinct (take n (map cart_id (filter p (AbandonedCarts w))))"
    using u unfolding uniqueCartIds_def by (intro distinct_take distinct_map_filter)
  then have "distinct (map cart_id (take n (filter p (AbandonedCarts w))))"
    by (simp add: take_map)
  moreover have "set (take n (filter p (AbandonedCarts w))) \<subseteq> set (AbandonedCarts w)"
    by (auto dest: in_set_takeD)
  ultimately show ?thesis
    using u by (simp add: page_def uniqueCartIds_def)
qed

lemma page_id_member:
  "page w items \<Longrightarrow> x \<in> set (AbandonedCarts w) \<Longrightarrow> d \<in> set items \<Longrightarrow>
   cart_id x = cart_id d \<Longrightarrow> x = d"
  by (auto simp: page_def distinct_map inj_on_def)

lemma hoursMs_values [simp]: "hoursMs 1 = 3600000" "hoursMs 24 = 86400000" "hoursMs 48 = 172800000"
  by (simp_all add: hoursMs_def)

lemma query_member:
  "wixQuery up coll p n = Inr items \<Longrightarrow> c \<in> set items \<Longrightarrow> c \<in> set coll \<and> p c"
  by (auto simp: wixQuery_def split: if_splits dest: in_set_takeD)

subsection \<open>The three loops\<close>

text \<open>Each loop over a page leaves the world \<open>sendEach\<close> describes: the carts of the page
  whose email is delivered are reminded, their ids are appended to the outbox, and the
  counters count the answers.\<close>

lemma sendEach_char:
  "page w items \<Longrightarrow>
   sendEach mail now (map cart_id items) w =
     w\<lparr>AbandonedCarts :=
          map (\<lambda>x. if x \<in> set items \<and> mail x = Delivered then markReminded now x else x)
            (AbandonedCarts w),
       outbox := outbox w @ map cart_id (filter (\<lambda>c. mail c = Delivered) items)\<rparr>"
proof (induction items arbitrary: w)
  case Nil
  then show ?case by simp
next
  case (Cons c rest)
  let ?w1 = "fst (sendCartRecoveryEmail mail now (cart_id c) w)"
  have d: "distinct (map cart_id (AbandonedCarts w))" and cin: "c \<in> set (AbandonedCarts w)"
    and nin: "cart_id c \<notin> cart_id ` set rest"
    using Cons.prems by (auto simp: page_def)
  have ih: "sendEach mail now (map cart_id rest) ?w1 =
     ?w1\<lparr>AbandonedCarts :=
          map (\<lambda>x. if x \<in> set rest \<and> mail x = Delivered then markReminded now x else x)
            (AbandonedCarts ?w1),
       outbox := outbox ?w1 @ map cart_id (filter (\<lambda>c. mail c = Delivered) rest)\<rparr>"
    using Cons.IH[OF page_step[OF Cons.prems]] .
  have notin: "markReminded now c \<notin> set rest"
    using nin by (metis cart_id_markReminded image_eqI)
  show ?case
  proof (cases "mail c = Delivered")
    case True
    have w1: "?w1 = w\<lparr>AbandonedCarts := map (\<lambda>x. if x = c then markReminded now c else x) (AbandonedCarts w),
             outbox := outbox w @ [cart_id c]\<rparr>"
      using True by (simp add: send_known[OF d cin])
    have fn: "(\<lambda>x. if (if x = c then markReminded now c else x) \<in> set rest \<and>
                    mail (if x = c then markReminded now c else x) = Delivered
                 then markReminded now (if x = c then markReminded now c else x)
                 else if x = c then markReminded now c else x)
            = (\<lambda>x. if (x = c \<or> x \<in> set rest) \<and> mail x = Delivered
                 then markReminded now x else x)"
      using True notin by (auto simp: fun_eq_iff)
    show ?thesis
      unfolding sendEach.simps list.map ih
      unfolding w1 using True by (simp add: o_def fn)
  next
    case False
    have w1: "?w1 = w"
      using False by (simp add: send_known[OF d cin] split: send_result.splits)
    show ?thesis
      unfolding sendEach.simps list.map ih
      unfolding w1 using False by (auto intro!: map_cong)
  qed
qed

lemma newlySent_sendEach:
  "page w items \<Longrightarrow>
   newlySent w (sendEach mail now (map cart_id items) w)
     = map cart_id (filter (\<lambda>c. mail c = Delivered) items)"
  by (simp add: sendEach_char newlySent_def)

lemma carts_sendEach:
  "page w items \<Longrightarrow>
   AbandonedCarts (sendEach mail now (map cart_id items) w)
     = map (\<lambda>x. if x \<in> set items \<and> mail x = Delivered then markReminded now x else x)
         (AbandonedCarts w)"
  by (simp add: sendEach_char)

lemma processLoop_char:
  "page w items \<Longrightarrow>
   processLoop mail now items (w, s, f) =
     (sendEach mail now (map cart_id items) w,
      s + length (filter (\<lambda>c. mail c = Delivered) items),
      f + length (filter (\<lambda>c. mail c \<noteq> Delivered) items))"
proof (induction items arbitrary: w s f)
  case Nil
  then show ?case by simp
next
  case (Cons c rest)
  have d: "distinct (map cart_id (AbandonedCarts w))" and cin: "c \<in> set (AbandonedCarts w)"
    using Cons.prems by (auto simp: page_def)
  note ih = Cons.IH[OF page_step[OF Cons.prems, of mail now]]
  show ?case
  proof (cases "mail c")
    case Delivered
    then show ?thesis using ih by (simp add: send_known[OF d cin])
  next
    case (Refused m)
    then show ?thesis using ih by (simp add: send_known[OF d cin])
  next
    case (Crashed m)
    then show ?thesis using ih by (simp add: send_known[OF d cin])
  qed
qed

lemma secondLoop_char:
  "page w items \<Longrightarrow>
   secondLoop mail now items (w, n) =
     (sendEach mail now (map cart_id items) w,
      n + length (filter (\<lambda>c. \<not> threw (mail c)) items))"
proof (induction items arbitrary: w n)
  case Nil
  then show ?case by simp
next
  case (Cons c rest)
  have d: "distinct (map cart_id (AbandonedCarts w))" and cin: "c \<in> set (AbandonedCarts w)"
    using Cons.prems by (auto simp: page_def)
  note ih = Cons.IH[OF page_step[OF Cons.prems, of mail now]]
  show ?case
  proof (cases "mail c")
    case Delivered
    then show ?thesis using ih by (simp add: send_known[OF d cin] threw_def)
  next
    case (Refused m)
    then show ?thesis using ih by (simp add: send_known[OF d cin] threw_def)
  next
    case (Crashed m)
    then show ?thesis using ih by (simp add: send_known[OF d cin] threw_def)
  qed
qed

lemma bulkLoop_char:
  "page w items \<Longrightarrow>
   bulkLoop mail now items (w, r) =
     (sendEach mail now (map cart_id items) w,
      r\<lparr>bulk_processed := bulk_processed r + length items,
        bulk_successful := bulk_successful r + length (filter (\<lambda>c. mail c = Delivered) items),
        bulk_failed := bulk_failed r + length (filter (\<lambda>c. mail c \<noteq> Delivered) items),
        bulk_errors := bulk_errors r @
           map (\<lambda>c. (cart_id c, failureMessage (mail c)))
             (filter (\<lambda>c. mail c \<noteq> Delivered) items)\<rparr>)"
proof (induction items arbitrary: w r)
  case Nil
  then show ?case by simp
next
  case (Cons c rest)
  have d: "distinct (map cart_id (AbandonedCarts w))" and cin: "c \<in> set (AbandonedCarts w)"
    using Cons.prems by (auto simp: page_def)
  note ih = Cons.IH[OF page_step[OF Cons.prems, of mail now]]
  show ?case
  proof (cases "mail c")
    case Delivered
    then show ?thesis using ih by (simp add: send_known[OF d cin] failureMessage_def Let_def)
  next
    case (Refused m)
    then show ?thesis using ih by (simp add: send_known[OF d cin] failureMessage_def Let_def)
  next
    case (Crashed m)
    then show ?thesis using ih by (simp add: send_known[OF d cin] failureMessage_def Let_def)
  qed
qed

subsection \<open>The passes\<close>

text \<open>Each pass, with the store answering or not; a pass on one cart; passes in a row.\<close>

lemma processAbandonedCarts_down:
  "\<not> storeUp w \<Longrightarrow> processAbandonedCarts mail now w = Inl (Error ''data store unavailable'')"
  by (simp add: processAbandonedCarts_def wixQuery_def)

lemma sendSecondReminder_down:
  "\<not> storeUp w \<Longrightarrow> sendSecondReminder mail now w = Inl (Error ''data store unavailable'')"
  by (simp add: sendSecondReminder_def wixQuery_def)

lemma processAbandonedCarts_up:
  assumes "uniqueCartIds w" "storeUp w"
  shows "processAbandonedCarts mail now w =
     Inr (sendEach mail now
            (map cart_id (take 100 (filter (firstReminderFilter now) (AbandonedCarts w)))) w,
          \<lparr>processed = length (take 100 (filter (firstReminderFilter now) (AbandonedCarts w))),
           successful = length (filter (\<lambda>c. mail c = Delivered)
              (take 100 (filter (firstReminderFilter now) (AbandonedCarts w)))),
           failed = length (filter (\<lambda>c. mail c \<noteq> Delivered)
              (take 100 (filter (firstReminderFilter now) (AbandonedCarts w))))\<rparr>)"
  using assms
  by (simp add: processAbandonedCarts_def wixQuery_def processLoop_char[OF page_query])

lemma sendSecondReminder_up:
  assumes "uniqueCartIds w" "storeUp w"
  shows "sendSecondReminder mail now w =
     Inr (sendEach mail now
            (map cart_id (take 50 (filter (secondReminderFilter now) (AbandonedCarts w)))) w,
          length (filter (\<lambda>c. \<not> threw (mail c))
              (take 50 (filter (secondReminderFilter now) (AbandonedCarts w)))))"
  using assms
  by (simp add: sendSecondReminder_def wixQuery_def secondLoop_char[OF page_query])

lemma post_bulkRecovery_up:
  assumes "uniqueCartIds w" "storeUp w"
  shows "fst (post_bulkRecovery mail now (Inr h) w) =
     sendEach mail now
            (map cart_id (take 50 (filter (bulkRecoveryFilter h now) (AbandonedCarts w)))) w"
  using assms
  by (simp add: post_bulkRecovery_def wixQuery_def bulkLoop_char[OF page_query])

lemma post_bulkRecovery_down:
  "\<not> storeUp w \<Longrightarrow> fst (post_bulkRecovery mail now (Inr h) w) = w"
  by (simp add: post_bulkRecovery_def wixQuery_def)

lemma passEffect_char:
  assumes u: "uniqueCartIds w"
  shows "\<exists>items. page w items
     \<and> (\<forall>c\<in>set items. \<not> recovered c \<and> (\<not> emailSent c \<or> reminderCount c = 1))
     \<and> passEffect mail now p w = sendEach mail now (map cart_id items) w"
proof (cases "storeUp w")
  case False
  have "passEffect mail now p w = w"
    using False
    by (cases p) (simp_all add: passEffect_def processAbandonedCarts_down
        sendSecondReminder_down post_bulkRecovery_down)
  then show ?thesis using page_Nil[OF u] by (intro exI[of _ "[]"]) simp
next
  case True
  show ?thesis
  proof (cases p)
    case FirstReminder
    let ?items = "take 100 (filter (firstReminderFilter now) (AbandonedCarts w))"
    have "\<forall>c\<in>set ?items. \<not> recovered c \<and> (\<not> emailSent c \<or> reminderCount c = 1)"
      by (auto dest!: in_set_takeD simp: firstReminderFilter_def)
    moreover have "passEffect mail now p w = sendEach mail now (map cart_id ?items) w"
      using FirstReminder by (simp add: passEffect_def processAbandonedCarts_up[OF u True])
    ultimately show ?thesis using page_query[OF u] by blast
  next
    case SecondReminder
    let ?items = "take 50 (filter (secondReminderFilter now) (AbandonedCarts w))"
    have "\<forall>c\<in>set ?items. \<not> recovered c \<and> (\<not> emailSent c \<or> reminderCount c = 1)"
      by (auto dest!: in_set_takeD simp: secondReminderFilter_def split: option.splits)
    moreover have "passEffect mail now p w = sendEach mail now (map cart_id ?items) w"
      using SecondReminder by (simp add: passEffect_def sendSecondReminder_up[OF u True])
    ultimately show ?thesis using page_query[OF u] by blast
  next
    case (BulkRecovery h)
    let ?items = "take 50 (filter (bulkRecoveryFilter h now) (AbandonedCarts w))"
    have "\<forall>c\<in>set ?items. \<not> recovered c \<and> (\<not> emailSent c \<or> reminderCount c = 1)"
      by (auto dest!: in_set_takeD simp: bulkRecoveryFilter_def)
    moreover have "passEffect mail now p w = sendEach mail now (map cart_id ?items) w"
      using BulkRecovery by (simp add: passEffect_def post_bulkRecovery_up[OF u True])
    ultimately show ?thesis using page_query[OF u] by blast
  qed
qed

lemma pass_on_cart:
  assumes u: "uniqueCartIds w" and cin: "c \<in> set (AbandonedCarts w)"
  shows "\<exists>c'\<in>set (AbandonedCarts (passEffect mail now p w)).
           cart_id c' = cart_id c
         \<and> reminderCount c \<le> reminderCount c' \<and> reminderCount c' \<le> reminderCount c + 1
         \<and> (recovered c \<longrightarrow> c' = c \<and> cart_id c \<notin> set (newlySent w (passEffect mail now p w)))
         \<and> (lifecycleState c \<longrightarrow> lifecycleState c' \<and> reminderCount c' \<le> 2)"
proof -
  obtain items where pg: "page w items"
    and sel: "\<And>d. d \<in> set items \<Longrightarrow> \<not> recovered d \<and> (\<not> emailSent d \<or> reminderCount d = 1)"
    and eff: "passEffect mail now p w = sendEach mail now (map cart_id items) w"
    using passEffect_char[OF u, of mail now p] by blast
  let ?g = "\<lambda>x. if x \<in> set items \<and> mail x = Delivered then markReminded now x else x"
  have carts: "AbandonedCarts (passEffect mail now p w) = map ?g (AbandonedCarts w)"
    unfolding eff by (rule carts_sendEach[OF pg])
  have sent: "newlySent w (passEffect mail now p w)
                = map cart_id (filter (\<lambda>c. mail c = Delivered) items)"
    unfolding eff by (rule newlySent_sendEach[OF pg])
  have mem: "?g c \<in> set (AbandonedCarts (passEffect mail now p w))"
    unfolding carts using cin by simp
  have id: "cart_id (?g c) = cart_id c" by simp
  have cnt: "reminderCount c \<le> reminderCount (?g c) \<and> reminderCount (?g c) \<le> reminderCount c + 1"
    by (simp add: markReminded_def)
  have rec: "?g c = c \<and> cart_id c \<notin> set (newlySent w (passEffect mail now p w))" if r: "recovered c"
  proof -
    have nin: "c \<notin> set items" using sel r by blast
    have "cart_id c \<noteq> cart_id d" if "d \<in> set items" for d
      using page_id_member[OF pg cin that] nin that by blast
    then show ?thesis using nin by (auto simp: sent)
  qed
  have life: "lifecycleState (?g c) \<and> reminderCount (?g c) \<le> 2" if l: "lifecycleState c"
  proof (cases "c \<in> set items \<and> mail c = Delivered")
    case True
    then have "\<not> emailSent c \<or> reminderCount c = 1" using sel by blast
    then show ?thesis using True l by (auto simp: lifecycleState_def markReminded_def)
  next
    case False
    then show ?thesis using l by (auto simp: lifecycleState_def)
  qed
  show "\<exists>c'\<in>set (AbandonedCarts (passEffect mail now p w)).
           cart_id c' = cart_id c
         \<and> reminderCount c \<le> reminderCount c' \<and> reminderCount c' \<le> reminderCount c + 1
         \<and> (recovered c \<longrightarrow> c' = c \<and> cart_id c \<notin> set (newlySent w (passEffect mail now p w)))
         \<and> (lifecycleState c \<longrightarrow> lifecycleState c' \<and> reminderCount c' \<le> 2)"
    using mem id cnt rec life by blast
qed

lemma pass_frame:
  assumes u: "uniqueCartIds w"
  shows "uniqueCartIds (passEffect mail now p w)"
    and "outbox (passEffect mail now p w) = outbox w @ newlySent w (passEffect mail now p w)"
proof -
  obtain items where pg: "page w items"
    and eff: "passEffect mail now p w = sendEach mail now (map cart_id items) w"
    using passEffect_char[OF u, of mail now p] by blast
  let ?g = "\<lambda>x. if x \<in> set items \<and> mail x = Delivered then markReminded now x else x"
  have carts: "AbandonedCarts (passEffect mail now p w) = map ?g (AbandonedCarts w)"
    unfolding eff by (rule carts_sendEach[OF pg])
  have sent: "newlySent w (passEffect mail now p w)
                = map cart_id (filter (\<lambda>c. mail c = Delivered) items)"
    unfolding eff by (rule newlySent_sendEach[OF pg])
  show "outbox (passEffect mail now p w) = outbox w @ newlySent w (passEffect mail now p w)"
    unfolding sent unfolding eff by (simp add: sendEach_char[OF pg])
  show "uniqueCartIds (passEffect mail now p w)"
    using u unfolding uniqueCartIds_def carts by (simp add: o_def if_distrib cong: if_cong)
qed

lemma newlySent_append:
  assumes "outbox w1 = outbox w @ a" "outbox w2 = outbox w1 @ b"
  shows "newlySent w w2 = a @ b" "newlySent w w1 = a" "newlySent w1 w2 = b"
  using assms by (simp_all add: newlySent_def)

lemma runPasses_outbox:
  "uniqueCartIds w \<Longrightarrow>
   uniqueCartIds (runPasses ps w) \<and> (\<exists>sent. outbox (runPasses ps w) = outbox w @ sent)"
proof (induction ps arbitrary: w)
  case Nil
  then show ?case by simp
next
  case (Cons a ps)
  obtain mail now p where a: "a = (mail, now, p)" by (cases a)
  let ?w1 = "passEffect mail now p w"
  have u1: "uniqueCartIds ?w1" by (rule pass_frame(1)[OF Cons.prems])
  have o1: "outbox ?w1 = outbox w @ newlySent w ?w1"
    by (rule pass_frame(2)[OF Cons.prems])
  from Cons.IH[OF u1] obtain sent where
    "uniqueCartIds (runPasses ps ?w1)" "outbox (runPasses ps ?w1) = outbox ?w1 @ sent"
    by blast
  then show ?case unfolding a using o1 by simp
qed

lemma runPasses_recovered:
  "uniqueCartIds w \<Longrightarrow> c \<in> set (AbandonedCarts w) \<Longrightarrow> recovered c \<Longrightarrow>
   c \<in> set (AbandonedCarts (runPasses ps w)) \<and> cart_id c \<notin> set (newlySent w (runPasses ps w))"
proof (induction ps arbitrary: w)
  case Nil
  then show ?case by (simp add: newlySent_def)
next
  case (Cons a ps)
  obtain mail now p where a: "a = (mail, now, p)" by (cases a)
  let ?w1 = "passEffect mail now p w"
  have u1: "uniqueCartIds ?w1" by (rule pass_frame(1)[OF Cons.prems(1)])
  have o1: "outbox ?w1 = outbox w @ newlySent w ?w1"
    by (rule pass_frame(2)[OF Cons.prems(1)])
  from pass_on_cart[OF Cons.prems(1,2), of mail now p] Cons.prems(3)
  have c1: "c \<in> set (AbandonedCarts ?w1)" and n1: "cart_id c \<notin> set (newlySent w ?w1)"
    by auto
  from Cons.IH[OF u1 c1 Cons.prems(3)]
  have c2: "c \<in> set (AbandonedCarts (runPasses ps ?w1))"
    and n2: "cart_id c \<notin> set (newlySent ?w1 (runPasses ps ?w1))"
    by simp_all
  obtain sent where o2: "outbox (runPasses ps ?w1) = outbox ?w1 @ sent"
    using runPasses_outbox[OF u1] by blast
  have "newlySent w (runPasses ps ?w1) = newlySent w ?w1 @ sent"
    and "newlySent ?w1 (runPasses ps ?w1) = sent"
    using newlySent_append[OF o1 o2] by simp_all
  then show ?case unfolding a using c2 n1 n2 by simp
qed

lemma runPasses_lifecycle:
  "uniqueCartIds w \<Longrightarrow> c \<in> set (AbandonedCarts w) \<Longrightarrow> lifecycleState c \<Longrightarrow>
   \<exists>c'\<in>set (AbandonedCarts (runPasses ps w)).
      cart_id c' = cart_id c \<and> reminderCount c \<le> reminderCount c' \<and> reminderCount c' \<le> 2
      \<and> lifecycleState c'"
proof (induction ps arbitrary: w c)
  case Nil
  then show ?case by (auto simp: lifecycleState_def)
next
  case (Cons a ps)
  obtain mail now p where a: "a = (mail, now, p)" by (cases a)
  let ?w1 = "passEffect mail now p w"
  have u1: "uniqueCartIds ?w1" by (rule pass_frame(1)[OF Cons.prems(1)])
  from pass_on_cart[OF Cons.prems(1,2), of mail now p] Cons.prems(3)
  obtain c1 where c1: "c1 \<in> set (AbandonedCarts ?w1)" "cart_id c1 = cart_id c"
    "reminderCount c \<le> reminderCount c1" "lifecycleState c1"
    by blast
  from Cons.IH[OF u1 c1(1) c1(4)]
  obtain c' where "c' \<in> set (AbandonedCarts (runPasses ps ?w1))" "cart_id c' = cart_id c1"
    "reminderCount c1 \<le> reminderCount c'" "reminderCount c' \<le> 2" "lifecycleState c'"
    by blast
  then show ?case unfolding a using c1 by (auto intro!: bexI[of _ c'])
qed

lemma numberedCart_id [simp]: "cart_id (numberedCart n) = replicate n CHR ''c''"
  by (simp add: numberedCart_def)


subsection \<open>The segmentation job\<close>

text \<open>The loop over a page of customers rewrites exactly those whose computed segment
  differs, and a rewritten customer needs no further update.\<close>

lemma customer_id_rescored [simp]: "customer_id (rescored score now c) = customer_id c"
  by (simp add: rescored_def split: score_result.splits)

lemma rescored_settled [simp]: "\<not> needsUpdate score (rescored score now c)"
  by (auto simp: rescored_def needsUpdate_def split: score_result.splits)

lemma wixUpdate_unique:
  assumes "distinct (map customer_id coll)" "c \<in> set coll" "customer_id item = customer_id c"
  shows "wixUpdate item coll = map (\<lambda>x. if x = c then item else x) coll"
  unfolding wixUpdate_def using assms
  by (intro map_cong) (auto simp: distinct_map inj_on_def)

lemma segmentLoop_step:
  "segmentLoop score now (c # rest) (w, n) =
     (if needsUpdate score c
      then segmentLoop score now rest
             (w\<lparr>Customers := wixUpdate (rescored score now c) (Customers w)\<rparr>, n + 1)
      else segmentLoop score now rest (w, n))"
  by (simp add: needsUpdate_def rescored_def split: score_result.splits)


lemma customerPage_step:
  assumes "customerPage w (c # rest)"
  shows "customerPage (w\<lparr>Customers := wixUpdate (rescored score now c) (Customers w)\<rparr>) rest"
    and "customerPage w rest"
proof -
  have d: "distinct (map customer_id (Customers w))" and cin: "c \<in> set (Customers w)"
    and sub: "set rest \<subseteq> set (Customers w)" and nin: "customer_id c \<notin> customer_id ` set rest"
    and dr: "distinct (map customer_id rest)"
    using assms by (auto simp: customerPage_def)
  show "customerPage w rest" using d sub dr by (simp add: customerPage_def)
  have upd: "wixUpdate (rescored score now c) (Customers w)
               = map (\<lambda>x. if x = c then rescored score now c else x) (Customers w)"
    by (rule wixUpdate_unique[OF d cin]) simp
  have ids: "map customer_id (wixUpdate (rescored score now c) (Customers w))
               = map customer_id (Customers w)"
    unfolding upd by (simp add: o_def if_distrib cong: if_cong)
  have "r \<in> set (wixUpdate (rescored score now c) (Customers w))" if "r \<in> set rest" for r
  proof -
    have "r \<noteq> c" using that nin by auto
    moreover have "r \<in> set (Customers w)" using that sub by auto
    ultimately show ?thesis unfolding upd by auto
  qed
  then show "customerPage (w\<lparr>Customers := wixUpdate (rescored score now c) (Customers w)\<rparr>) rest"
    using d dr ids by (auto simp: customerPage_def)
qed

lemma segmentLoop_char:
  "customerPage w items \<Longrightarrow>
   segmentLoop score now items (w, n) =
     (w\<lparr>Customers :=
          map (\<lambda>x. if x \<in> set items \<and> needsUpdate score x then rescored score now x else x)
            (Customers w)\<rparr>,
      n + length (filter (needsUpdate score) items))"
proof (induction items arbitrary: w n)
  case Nil
  then show ?case by simp
next
  case (Cons c rest)
  have d: "distinct (map customer_id (Customers w))" and cin: "c \<in> set (Customers w)"
    and nin: "customer_id c \<notin> customer_id ` set rest"
    using Cons.prems by (auto simp: customerPage_def)
  show ?case
  proof (cases "needsUpdate score c")
    case True
    let ?w1 = "w\<lparr>Customers := wixUpdate (rescored score now c) (Customers w)\<rparr>"
    have upd: "wixUpdate (rescored score now c) (Customers w)
               = map (\<lambda>x. if x = c then rescored score now c else x) (Customers w)"
      by (rule wixUpdate_unique[OF d cin]) simp
    have notin: "rescored score now c \<notin> set rest"
      using nin by (metis customer_id_rescored image_eqI)
    have fn: "(\<lambda>x. if (if x = c then rescored score now c else x) \<in> set rest \<and>
                    needsUpdate score (if x = c then rescored score now c else x)
                 then rescored score now (if x = c then rescored score now c else x)
                 else if x = c then rescored score now c else x)
            = (\<lambda>x. if (x = c \<or> x \<in> set rest) \<and> needsUpdate score x
                 then rescored score now x else x)"
      using True notin by (auto simp: fun_eq_iff)
    show ?thesis
      unfolding segmentLoop_step Cons.IH[OF customerPage_step(1)[OF Cons.prems]]
      using True by (simp add: upd o_def fn)
  next
    case False
    have fn: "(\<lambda>x. if x \<in> set rest \<and> needsUpdate score x then rescored score now x else x)
            = (\<lambda>x. if (x = c \<or> x \<in> set rest) \<and> needsUpdate score x
                 then rescored score now x else x)"
      using False by (auto simp: fun_eq_iff)
    show ?thesis
      unfolding segmentLoop_step Cons.IH[OF customerPage_step(2)[OF Cons.prems]]
      using False by (simp add: fn)
  qed
qed

lemma customerPage_query:
  "uniqueCustomerIds w \<Longrightarrow> customerPage w (take n (Customers w))"
proof -
  assume u: "uniqueCustomerIds w"
  have "distinct (take n (map customer_id (Customers w)))"
    using u unfolding uniqueCustomerIds_def by (intro distinct_take)
  then have "distinct (map customer_id (take n (Customers w)))"
    by (simp add: take_map)
  moreover have "set (take n (Customers w)) \<subseteq> set (Customers w)"
    by (auto dest: in_set_takeD)
  ultimately show ?thesis
    using u by (simp add: customerPage_def uniqueCustomerIds_def)
qed

lemma updateCustomerSegments_down:
  "\<not> storeUp w \<Longrightarrow> updateCustomerSegments score now w = Inl (Error ''data store unavailable'')"
  by (simp add: updateCustomerSegments_def wixQuery_def)

lemma updateCustomerSegments_up:
  assumes "uniqueCustomerIds w" "storeUp w"
  shows "updateCustomerSegments score now w =
     Inr (w\<lparr>Customers :=
            map (\<lambda>x. if x \<in> set (take 1000 (Customers w)) \<and> needsUpdate score x
                     then rescored score now x else x) (Customers w)\<rparr>,
          \<lparr>customers_processed = length (take 1000 (Customers w)),
           customers_updated = length (filter (needsUpdate score) (take 1000 (Customers w)))\<rparr>)"
  using assms
  by (simp add: updateCustomerSegments_def wixQuery_def segmentLoop_char[OF customerPage_query])

subsection \<open>The housekeeping jobs\<close>

text \<open>A removal loop whose removals are all answered deletes every record of an id of
  the page and counts the page; and what the two jobs return.\<close>

lemma removeLoop_answered:
  "(\<And>r. r \<in> set items \<Longrightarrow> answered (idOf r)) \<Longrightarrow>
   removeLoop answered idOf items (coll, n)
     = (filter (\<lambda>x. idOf x \<notin> idOf ` set items) coll, Inr (n + length items))"
proof (induction items arbitrary: coll n)
  case Nil
  then show ?case by simp
next
  case (Cons r rest)
  have a: "answered (idOf r)" using Cons.prems by simp
  have "removeLoop answered idOf rest (wixRemove idOf (idOf r) coll, n + 1)
          = (filter (\<lambda>x. idOf x \<notin> idOf ` set rest) (wixRemove idOf (idOf r) coll),
             Inr (n + 1 + length rest))"
    using Cons.prems by (intro Cons.IH) simp
  moreover have "filter (\<lambda>x. idOf x \<notin> idOf ` set rest) (wixRemove idOf (idOf r) coll)
          = filter (\<lambda>x. idOf x \<notin> idOf ` set (r # rest)) coll"
    by (auto simp: wixRemove_def intro: filter_cong)
  ultimately show ?case using a by simp
qed

lemma cleanOldData_down:
  "\<not> storeUp x \<Longrightarrow> cleanOldData answered now x = (x, Inl (Error ''data store unavailable''))"
  by (simp add: cleanOldData_def wixQuery_def)

lemma cleanOldData_up:
  assumes up: "storeUp x"
    and b: "\<And>r. r \<in> set (take 1000 (filter (\<lambda>r. timestamp r < now - daysMs 90) (BrowsingHistory x)))
               \<Longrightarrow> answered ''BrowsingHistory'' (record_id r)"
    and i: "\<And>r. r \<in> set (take 1000 (filter (\<lambda>r. timestamp r < now - daysMs 90) (CustomerInteractions x)))
               \<Longrightarrow> answered ''CustomerInteractions'' (record_id r)"
    and c: "\<And>r. r \<in> set (take 500 (filter (\<lambda>c. abandonedAt c < now - daysMs 90 \<and> recovered c)
                                        (AbandonedCarts x)))
               \<Longrightarrow> answered ''AbandonedCarts'' (cart_id r)"
  shows "cleanOldData answered now x =
    (x\<lparr>AbandonedCarts :=
         filter (\<lambda>r. cart_id r \<notin> cart_id ` set (take 500 (filter (\<lambda>c. abandonedAt c < now - daysMs 90 \<and> recovered c) (AbandonedCarts x))))
           (AbandonedCarts x),
       BrowsingHistory :=
         filter (\<lambda>r. record_id r \<notin> record_id ` set (take 1000 (filter (\<lambda>r. timestamp r < now - daysMs 90) (BrowsingHistory x))))
           (BrowsingHistory x),
       CustomerInteractions :=
         filter (\<lambda>r. record_id r \<notin> record_id ` set (take 1000 (filter (\<lambda>r. timestamp r < now - daysMs 90) (CustomerInteractions x))))
           (CustomerInteractions x)\<rparr>,
     Inr \<lparr>deletedBrowsingHistory = length (take 1000 (filter (\<lambda>r. timestamp r < now - daysMs 90) (BrowsingHistory x))),
          deletedInteractions = length (take 1000 (filter (\<lambda>r. timestamp r < now - daysMs 90) (CustomerInteractions x))),
          deletedCarts = length (take 500 (filter (\<lambda>c. abandonedAt c < now - daysMs 90 \<and> recovered c) (AbandonedCarts x)))\<rparr>)"
proof -
  let ?b = "take 1000 (filter (\<lambda>r. timestamp r < now - daysMs 90) (BrowsingHistory x))"
  let ?i = "take 1000 (filter (\<lambda>r. timestamp r < now - daysMs 90) (CustomerInteractions x))"
  let ?c = "take 500 (filter (\<lambda>c. abandonedAt c < now - daysMs 90 \<and> recovered c) (AbandonedCarts x))"
  have lb: "removeLoop (answered ''BrowsingHistory'') record_id ?b (BrowsingHistory x, 0)
              = (filter (\<lambda>r. record_id r \<notin> record_id ` set ?b) (BrowsingHistory x),
                 Inr (0 + length ?b))"
    by (rule removeLoop_answered) (rule b)
  have li: "removeLoop (answered ''CustomerInteractions'') record_id ?i (CustomerInteractions x, 0)
              = (filter (\<lambda>r. record_id r \<notin> record_id ` set ?i) (CustomerInteractions x),
                 Inr (0 + length ?i))"
    by (rule removeLoop_answered) (rule i)
  have lc: "removeLoop (answered ''AbandonedCarts'') cart_id ?c (AbandonedCarts x, 0)
              = (filter (\<lambda>r. cart_id r \<notin> cart_id ` set ?c) (AbandonedCarts x),
                 Inr (0 + length ?c))"
    by (rule removeLoop_answered) (rule c)
  show ?thesis
    unfolding cleanOldData_def
    by (simp add: Let_def wixQuery_def up lb li lc del: length_take)
qed

lemma generateDailySalesReport_down:
  "\<not> storeUp x \<Longrightarrow> generateDailySalesReport rt now x = Inl (Error ''data store unavailable'')"
  by (simp add: generateDailySalesReport_def wixFind_def)

lemma generateDailySalesReport_up:
  assumes up: "storeUp x"
  shows "\<exists>r. generateDailySalesReport rt now x = Inr (x\<lparr>DailyReports := DailyReports x @ [r]\<rparr>, r)
     \<and> orders r = length (filter (\<lambda>order. now - hoursMs 24 \<le> createdDate order \<and> createdDate order < now) (Orders x))
     \<and> previousDayOrders r = length (filter (\<lambda>order. now - hoursMs 48 \<le> createdDate order \<and> createdDate order < now - hoursMs 24) (Orders x))"
  by (simp add: generateDailySalesReport_def wixFind_def up Let_def)

subsection \<open>The chat widget\<close>

text \<open>The recommendation handler in terms of the engine's answer; what the handlers read
  of the state; what sending and initialising write.\<close>

lemma recommendationReply_unfold:
  "(case r of
      RecommendationsThrown m \<Rightarrow> text_reply menuText
    | RecommendationsReturned success recs \<Rightarrow>
        (if success
         then (case recs of
                 None \<Rightarrow> text_reply menuText
               | Some ps \<Rightarrow>
                   if length ps > 0 then products_reply productsText ps
                   else text_reply menuText)
         else text_reply menuText))
   = recommendationReply r"
proof (cases r)
  case (RecommendationsThrown m)
  then show ?thesis by (simp add: recommendationReply_def productsOf_def)
next
  case (RecommendationsReturned success recs)
  then show ?thesis
    by (cases recs) (simp_all add: recommendationReply_def productsOf_def)
qed

lemma handleProductRecommendation_reply:
  "handleProductRecommendation e st =
     recommendationReply
       (case customerId st of
          None \<Rightarrow> getTrendingProducts e 3
        | Some cid \<Rightarrow>
            if cid \<noteq> [] \<and> \<not> startsWith cid ''guest_''
            then getPersonalizedRecommendations e cid 3
            else getTrendingProducts e 3)"
  unfolding handleProductRecommendation_def recommendationReply_unfold ..


lemma addMessage_fields [simp]:
  "customerId (addMessage t who txt ty dat st) = customerId st"
  "sessionId (addMessage t who txt ty dat st) = sessionId st"
  "chat_context (addMessage t who txt ty dat st) = chat_context st"
  "isOpen (addMessage t who txt ty dat st) = isOpen st"
  "messages (addMessage t who txt ty dat st) =
     messages st @ [\<lparr>message_id = t, message_sender = who, message_text = txt,
                     message_type = ty, message_data = dat, message_timestamp = t\<rparr>]"
  by (simp_all add: addMessage_def)





lemma memberState_customer: "customerId memberState = Some ''member-1''"
  by (simp add: memberState_def initializeChatBot_def addMessage_def newChatBotState_def Let_def)

lemma sharedState_customer: "customerId sharedState = Some ''guest_session_b2''"
  by (simp add: sharedState_def initializeChatBot_def addMessage_def Let_def)

subsection \<open>The webhook\<close>

text \<open>A tracked request is never answered as a validation rejection.\<close>

lemma respondTracked_not_badRequest: "respondTracked r \<noteq> badRequest b"
  by (cases r) (simp_all add: respondTracked_def)

section \<open>The claims\<close>

subsection \<open>C1: the first-reminder pass\<close>




subsection \<open>C2: recovered carts and the reminder count\<close>

text \<open>
  C2. In a store of unique ids, whatever batch pass runs (first reminder, second
  reminder or bulk recovery), at whatever time and whatever the email collaborator
  answers: every cart is still in the store under its id, its \<^verbatim>\<open>reminderCount\<close> has
  not decreased and has grown by at most 1; a cart with \<^verbatim>\<open>recovered=true\<close> is left as
  it is and no email of the pass is for it; and a cart in a lifecycle state (count at
  most 2, count 0 while unemailed, as a cart is created) is in a lifecycle state
  afterwards. And whatever passes run one after another, in any number and order: a
  recovered cart is still in the store as it was and none of the emails sent since is
  for it; and the \<^verbatim>\<open>reminderCount\<close> of a cart that was in a lifecycle state has not
  decreased and is at most 2.
\<close>

theorem C2_recovered_never_reminded:
  assumes u: "uniqueCartIds w" and cin: "c \<in> set (AbandonedCarts w)"
  shows "(\<exists>c'\<in>set (AbandonedCarts (passEffect mail now p w)).
           cart_id c' = cart_id c
         \<and> reminderCount c \<le> reminderCount c' \<and> reminderCount c' \<le> reminderCount c + 1
         \<and> (recovered c \<longrightarrow> c' = c \<and> cart_id c \<notin> set (newlySent w (passEffect mail now p w)))
         \<and> (lifecycleState c \<longrightarrow> lifecycleState c' \<and> reminderCount c' \<le> 2))
       \<and> (recovered c \<longrightarrow>
            c \<in> set (AbandonedCarts (runPasses ps w))
          \<and> cart_id c \<notin> set (newlySent w (runPasses ps w)))
       \<and> (lifecycleState c \<longrightarrow>
            (\<exists>c'\<in>set (AbandonedCarts (runPasses ps w)).
               cart_id c' = cart_id c \<and> reminderCount c \<le> reminderCount c'
             \<and> reminderCount c' \<le> 2))"
proof (intro conjI impI)
  show "\<exists>c'\<in>set (AbandonedCarts (passEffect mail now p w)).
           cart_id c' = cart_id c
         \<and> reminderCount c \<le> reminderCount c' \<and> reminderCount c' \<le> reminderCount c + 1
         \<and> (recovered c \<longrightarrow> c' = c \<and> cart_id c \<notin> set (newlySent w (passEffect mail now p w)))
         \<and> (lifecycleState c \<longrightarrow> lifecycleState c' \<and> reminderCount c' \<le> 2)"
    by (rule pass_on_cart[OF u cin])
next
  assume r: "recovered c"
  show "c \<in> set (AbandonedCarts (runPasses ps w))"
    using runPasses_recovered[OF u cin r] by simp
  show "cart_id c \<notin> set (newlySent w (runPasses ps w))"
    using runPasses_recovered[OF u cin r] by simp
next
  assume l: "lifecycleState c"
  show "\<exists>c'\<in>set (AbandonedCarts (runPasses ps w)).
               cart_id c' = cart_id c \<and> reminderCount c \<le> reminderCount c'
             \<and> reminderCount c' \<le> 2"
    using runPasses_lifecycle[OF u cin l, of ps] by blast
qed

text \<open>A store with an unemailed cart and a recovered one, all emails delivered, and a
  first-reminder, a second-reminder and a bulk recovery pass in a row: the recovered
  cart is left as it is and nothing is sent for it, and the other cart's count stays
  within 2.\<close>

theorem C2_recovered_never_reminded_witness:
  "uniqueCartIds mixedWorld
   \<and> recoveredCart \<in> set (AbandonedCarts mixedWorld)
   \<and> recovered recoveredCart \<and> lifecycleState recoveredCart
   \<and> recoveredCart \<in> set (AbandonedCarts
         (runPasses [(\<lambda>c. Delivered, hoursMs 2, FirstReminder),
                     (\<lambda>c. Delivered, hoursMs 30, SecondReminder),
                     (\<lambda>c. Delivered, hoursMs 31, BulkRecovery None)] mixedWorld))
   \<and> cart_id recoveredCart \<notin> set (newlySent mixedWorld
         (runPasses [(\<lambda>c. Delivered, hoursMs 2, FirstReminder),
                     (\<lambda>c. Delivered, hoursMs 30, SecondReminder),
                     (\<lambda>c. Delivered, hoursMs 31, BulkRecovery None)] mixedWorld))
   \<and> agedCart 0 \<in> set (AbandonedCarts mixedWorld) \<and> lifecycleState (agedCart 0)
   \<and> (\<exists>c'\<in>set (AbandonedCarts
         (runPasses [(\<lambda>c. Delivered, hoursMs 2, FirstReminder),
                     (\<lambda>c. Delivered, hoursMs 30, SecondReminder),
                     (\<lambda>c. Delivered, hoursMs 31, BulkRecovery None)] mixedWorld)).
         cart_id c' = cart_id (agedCart 0) \<and> reminderCount c' \<le> 2)"
proof -
  let ?ps = "[(\<lambda>c. Delivered, hoursMs 2, FirstReminder),
              (\<lambda>c. Delivered, hoursMs 30, SecondReminder),
              (\<lambda>c. Delivered, hoursMs 31, BulkRecovery None)]"
  have h1: "uniqueCartIds mixedWorld"
    by (simp add: uniqueCartIds_def mixedWorld_def recoveredCart_def agedCart_def)
  have h2: "recoveredCart \<in> set (AbandonedCarts mixedWorld)"
    and h3: "agedCart 0 \<in> set (AbandonedCarts mixedWorld)"
    by (simp_all add: mixedWorld_def)
  have r: "recovered recoveredCart" and l: "lifecycleState recoveredCart"
    and l': "lifecycleState (agedCart 0)"
    by (simp_all add: recoveredCart_def agedCart_def lifecycleState_def)
  note t = C2_recovered_never_reminded[OF h1 h2, of "\<lambda>c. Delivered" "hoursMs 2"
      FirstReminder ?ps]
  note t' = C2_recovered_never_reminded[OF h1 h3, of "\<lambda>c. Delivered" "hoursMs 2"
      FirstReminder ?ps]
  have a: "recoveredCart \<in> set (AbandonedCarts (runPasses ?ps mixedWorld))
     \<and> cart_id recoveredCart \<notin> set (newlySent mixedWorld (runPasses ?ps mixedWorld))"
    using t r by blast
  have b: "\<exists>c'\<in>set (AbandonedCarts (runPasses ?ps mixedWorld)).
         cart_id c' = cart_id (agedCart 0) \<and> reminderCount c' \<le> 2"
    using t' l' by blast
  show ?thesis using h1 h2 h3 r l l' a b by blast
qed

subsection \<open>C3: discount code validation\<close>

text \<open>
  C3. A code validates as valid if and only if \<^verbatim>\<open>isActive\<close> holds, \<^verbatim>\<open>now < expiresAt\<close>,
  \<^verbatim>\<open>usedCount < usageLimit\<close> and \<^verbatim>\<open>orderAmount >= minOrderAmount\<close>; each reason is
  reported only when its own condition fails (\<^verbatim>\<open>expired\<close>, \<^verbatim>\<open>inactive\<close>,
  \<^verbatim>\<open>limit_reached\<close>, \<^verbatim>\<open>below_minimum\<close>); a valid answer consumes the code by one use
  and any other answer leaves it as it is; \<^verbatim>\<open>usedCount \<le> usageLimit\<close> holds after every
  consumption and every validation. For an active, unexpired code with
  \<^verbatim>\<open>usageLimit=1, usedCount=0, minOrderAmount=20\<close>: validating at 15 fails with
  \<^verbatim>\<open>below_minimum\<close>, validating at 25 succeeds and sets \<^verbatim>\<open>usedCount\<close> to 1, and
  validating at 25 again fails with \<^verbatim>\<open>limit_reached\<close>.
\<close>

theorem C3_code_validation:
  "(snd (validateCode now dc amount) = valid
      \<longleftrightarrow> isActive dc \<and> now < expiresAt dc \<and> usedCount dc < usageLimit dc
          \<and> minOrderAmount dc \<le> amount)
   \<and> (snd (validateCode now dc amount) = invalid expired \<longrightarrow> \<not> now < expiresAt dc)
   \<and> (snd (validateCode now dc amount) = invalid inactive \<longrightarrow> \<not> isActive dc)
   \<and> (snd (validateCode now dc amount) = invalid limit_reached
        \<longrightarrow> \<not> usedCount dc < usageLimit dc)
   \<and> (snd (validateCode now dc amount) = invalid below_minimum
        \<longrightarrow> \<not> minOrderAmount dc \<le> amount)
   \<and> (snd (validateCode now dc amount) = valid
        \<longrightarrow> fst (validateCode now dc amount) = dc\<lparr>usedCount := usedCount dc + 1\<rparr>)
   \<and> (snd (validateCode now dc amount) \<noteq> valid \<longrightarrow> fst (validateCode now dc amount) = dc)
   \<and> (usedCount dc \<le> usageLimit dc
        \<longrightarrow> usedCount (consume dc) \<le> usageLimit (consume dc)
          \<and> usedCount (fst (validateCode now dc amount))
               \<le> usageLimit (fst (validateCode now dc amount)))
   \<and> (isActive dc \<and> now < expiresAt dc \<and> usageLimit dc = 1 \<and> usedCount dc = 0
        \<and> minOrderAmount dc = 20
        \<longrightarrow> validateCode now dc 15 = (dc, invalid below_minimum)
          \<and> validateCode now dc 25 = (dc\<lparr>usedCount := 1\<rparr>, valid)
          \<and> validateCode now (dc\<lparr>usedCount := 1\<rparr>) 25
               = (dc\<lparr>usedCount := 1\<rparr>, invalid limit_reached))"
proof (intro conjI)
  show "snd (validateCode now dc amount) = valid
      \<longleftrightarrow> isActive dc \<and> now < expiresAt dc \<and> usedCount dc < usageLimit dc
          \<and> minOrderAmount dc \<le> amount"
    by (simp add: validateCode_def checkCode_def)
  show "snd (validateCode now dc amount) = invalid expired \<longrightarrow> \<not> now < expiresAt dc"
    by (simp add: validateCode_def checkCode_def)
  show "snd (validateCode now dc amount) = invalid inactive \<longrightarrow> \<not> isActive dc"
    by (simp add: validateCode_def checkCode_def)
  show "snd (validateCode now dc amount) = invalid limit_reached
        \<longrightarrow> \<not> usedCount dc < usageLimit dc"
    by (simp add: validateCode_def checkCode_def)
  show "snd (validateCode now dc amount) = invalid below_minimum
        \<longrightarrow> \<not> minOrderAmount dc \<le> amount"
    by (simp add: validateCode_def checkCode_def)
  show "snd (validateCode now dc amount) = valid
        \<longrightarrow> fst (validateCode now dc amount) = dc\<lparr>usedCount := usedCount dc + 1\<rparr>"
    by (simp add: validateCode_def checkCode_def consume_def)
  show "snd (validateCode now dc amount) \<noteq> valid \<longrightarrow> fst (validateCode now dc amount) = dc"
    by (simp add: validateCode_def checkCode_def)
  show "usedCount dc \<le> usageLimit dc
        \<longrightarrow> usedCount (consume dc) \<le> usageLimit (consume dc)
          \<and> usedCount (fst (validateCode now dc amount))
               \<le> usageLimit (fst (validateCode now dc amount))"
    by (simp add: validateCode_def checkCode_def consume_def)
  show "isActive dc \<and> now < expiresAt dc \<and> usageLimit dc = 1 \<and> usedCount dc = 0
        \<and> minOrderAmount dc = 20
        \<longrightarrow> validateCode now dc 15 = (dc, invalid below_minimum)
          \<and> validateCode now dc 25 = (dc\<lparr>usedCount := 1\<rparr>, valid)
          \<and> validateCode now (dc\<lparr>usedCount := 1\<rparr>) 25
               = (dc\<lparr>usedCount := 1\<rparr>, invalid limit_reached)"
    by (simp add: validateCode_def checkCode_def consume_def)
qed

text \<open>At the code \<^verbatim>\<open>SAVE10\<close>: the scenario before its expiry, its validation at its
  expiry, and the validation of its deactivated copy.\<close>

theorem C3_code_validation_witness:
  "isActive SAVE10 \<and> 0 < expiresAt SAVE10 \<and> usageLimit SAVE10 = 1 \<and> usedCount SAVE10 = 0
   \<and> minOrderAmount SAVE10 = 20
   \<and> validateCode 0 SAVE10 15 = (SAVE10, invalid below_minimum)
   \<and> validateCode 0 SAVE10 25 = (SAVE10\<lparr>usedCount := 1\<rparr>, valid)
   \<and> validateCode 0 (SAVE10\<lparr>usedCount := 1\<rparr>) 25
        = (SAVE10\<lparr>usedCount := 1\<rparr>, invalid limit_reached)
   \<and> usedCount (fst (validateCode 0 SAVE10 25)) \<le> usageLimit (fst (validateCode 0 SAVE10 25))
   \<and> snd (validateCode 1000 SAVE10 25) = invalid expired \<and> \<not> 1000 < expiresAt SAVE10
   \<and> snd (validateCode 0 (SAVE10\<lparr>isActive := False\<rparr>) 25) = invalid inactive
   \<and> fst (validateCode 1000 SAVE10 25) = SAVE10"
proof -
  have h: "isActive SAVE10 \<and> 0 < expiresAt SAVE10 \<and> usageLimit SAVE10 = 1
           \<and> usedCount SAVE10 = 0 \<and> minOrderAmount SAVE10 = 20"
    by (simp add: SAVE10_def)
  have le: "usedCount SAVE10 \<le> usageLimit SAVE10" by (simp add: SAVE10_def)
  note t = C3_code_validation[of 0 SAVE10 25]
  have scenario: "validateCode 0 SAVE10 15 = (SAVE10, invalid below_minimum)
          \<and> validateCode 0 SAVE10 25 = (SAVE10\<lparr>usedCount := 1\<rparr>, valid)
          \<and> validateCode 0 (SAVE10\<lparr>usedCount := 1\<rparr>) 25
               = (SAVE10\<lparr>usedCount := 1\<rparr>, invalid limit_reached)"
    using t h by blast
  have bound: "usedCount (fst (validateCode 0 SAVE10 25))
                 \<le> usageLimit (fst (validateCode 0 SAVE10 25))"
    using t le by blast
  have e: "snd (validateCode 1000 SAVE10 25) = invalid expired"
    by (simp add: validateCode_def checkCode_def SAVE10_def)
  have i: "snd (validateCode 0 (SAVE10\<lparr>isActive := False\<rparr>) 25) = invalid inactive"
    by (simp add: validateCode_def checkCode_def SAVE10_def)
  note t' = C3_code_validation[of 1000 SAVE10 25]
  have e': "\<not> 1000 < expiresAt SAVE10" using t' e by blast
  have "snd (validateCode 1000 SAVE10 25) \<noteq> valid" using e by simp
  then have kept: "fst (validateCode 1000 SAVE10 25) = SAVE10" using t' by blast
  show ?thesis using h scenario bound e e' i kept by blast
qed

subsection \<open>C4: what the batch entry points return\<close>

text \<open>
  C4, as amended. In a store of unique ids, each of the five jobs rethrows when its
  store query is rejected and returns a summary of its own shape when its store calls
  are answered. In \<^verbatim>\<open>processAbandonedCarts\<close>, \<^verbatim>\<open>sendSecondReminder\<close> and
  \<^verbatim>\<open>updateCustomerSegments\<close> an item whose call fails or throws does not stop the pass:
  the emails dispatched are those of all the selected carts whose send succeeds, and the
  customers rewritten are all those of the page whose computed segment differs.
  \<^verbatim>\<open>processAbandonedCarts\<close> returns \<^verbatim>\<open>{processed, successful, failed}\<close> with
  \<^verbatim>\<open>processed = successful + failed\<close>, each failing item counted in \<^verbatim>\<open>failed\<close>;
  \<^verbatim>\<open>sendSecondReminder\<close> returns \<^verbatim>\<open>{sent}\<close>, a count of at most the selected carts;
  \<^verbatim>\<open>updateCustomerSegments\<close> returns \<^verbatim>\<open>{processed, updated}\<close>; \<^verbatim>\<open>cleanOldData\<close>, when its
  removals are answered, returns the three numbers of records it selected, which are then
  gone; \<^verbatim>\<open>generateDailySalesReport\<close> returns the report it has appended to
  \<^verbatim>\<open>DailyReports\<close>, with the order counts of the two days.
\<close>

theorem C4_batch_passes:
  assumes uc: "uniqueCartIds w" and uu: "uniqueCustomerIds w"
  shows "(\<not> storeUp w \<longrightarrow>
            isl (processAbandonedCarts mail now w) \<and> isl (sendSecondReminder mail now w)
          \<and> isl (updateCustomerSegments score now w))
       \<and> (storeUp w \<longrightarrow>
            (\<exists>w' s items.
                wixQuery True (AbandonedCarts w) (firstReminderFilter now) 100 = Inr items
              \<and> processAbandonedCarts mail now w = Inr (w', s)
              \<and> processed s = length items
              \<and> successful s = length (filter (\<lambda>c. mail c = Delivered) items)
              \<and> failed s = length (filter (\<lambda>c. mail c \<noteq> Delivered) items)
              \<and> processed s = successful s + failed s
              \<and> newlySent w w' = map cart_id (filter (\<lambda>c. mail c = Delivered) items))
          \<and> (\<exists>w' n items.
                wixQuery True (AbandonedCarts w) (secondReminderFilter now) 50 = Inr items
              \<and> sendSecondReminder mail now w = Inr (w', n)
              \<and> n \<le> length items
              \<and> newlySent w w' = map cart_id (filter (\<lambda>c. mail c = Delivered) items))
          \<and> (\<exists>w' s items.
                wixQuery True (Customers w) (\<lambda>c. True) 1000 = Inr items
              \<and> updateCustomerSegments score now w = Inr (w', s)
              \<and> customers_processed s = length items
              \<and> customers_updated s = length (filter (needsUpdate score) items)
              \<and> Customers w' =
                  map (\<lambda>x. if x \<in> set items \<and> needsUpdate score x
                           then rescored score now x else x) (Customers w)))
       \<and> (\<not> storeUp x \<longrightarrow>
            cleanOldData answered now x = (x, Inl (Error ''data store unavailable''))
          \<and> isl (generateDailySalesReport rt now x))
       \<and> (storeUp x \<longrightarrow>
            (\<exists>oldBrowsingHistory oldInteractions oldCarts.
                wixQuery True (BrowsingHistory x) (\<lambda>r. timestamp r < now - daysMs 90) 1000
                  = Inr oldBrowsingHistory
              \<and> wixQuery True (CustomerInteractions x) (\<lambda>r. timestamp r < now - daysMs 90) 1000
                  = Inr oldInteractions
              \<and> wixQuery True (AbandonedCarts x)
                    (\<lambda>c. abandonedAt c < now - daysMs 90 \<and> recovered c) 500 = Inr oldCarts
              \<and> ((\<forall>r\<in>set oldBrowsingHistory. answered ''BrowsingHistory'' (record_id r))
                  \<and> (\<forall>r\<in>set oldInteractions. answered ''CustomerInteractions'' (record_id r))
                  \<and> (\<forall>c\<in>set oldCarts. answered ''AbandonedCarts'' (cart_id c))
                  \<longrightarrow> (\<exists>x' s.
                          cleanOldData answered now x = (x', Inr s)
                        \<and> deletedBrowsingHistory s = length oldBrowsingHistory
                        \<and> deletedInteractions s = length oldInteractions
                        \<and> deletedCarts s = length oldCarts
                        \<and> BrowsingHistory x' =
                            filter (\<lambda>r. record_id r \<notin> record_id ` set oldBrowsingHistory)
                              (BrowsingHistory x)
                        \<and> CustomerInteractions x' =
                            filter (\<lambda>r. record_id r \<notin> record_id ` set oldInteractions)
                              (CustomerInteractions x)
                        \<and> AbandonedCarts x' =
                            filter (\<lambda>c. cart_id c \<notin> cart_id ` set oldCarts) (AbandonedCarts x))))
          \<and> (\<exists>x' r.
                generateDailySalesReport rt now x = Inr (x', r)
              \<and> DailyReports x' = DailyReports x @ [r]
              \<and> orders r = length (filter (\<lambda>order. now - hoursMs 24 \<le> createdDate order
                                                   \<and> createdDate order < now) (Orders x))
              \<and> previousDayOrders r =
                  length (filter (\<lambda>order. now - hoursMs 48 \<le> createdDate order
                                         \<and> createdDate order < now - hoursMs 24) (Orders x))))"
proof (intro conjI impI)
  assume down: "\<not> storeUp w"
  show "isl (processAbandonedCarts mail now w)"
    by (simp add: processAbandonedCarts_down[OF down])
  show "isl (sendSecondReminder mail now w)"
    by (simp add: sendSecondReminder_down[OF down])
  show "isl (updateCustomerSegments score now w)"
    by (simp add: updateCustomerSegments_down[OF down])
next
  assume up: "storeUp w"
  let ?items = "take 100 (filter (firstReminderFilter now) (AbandonedCarts w))"
  let ?w' = "sendEach mail now (map cart_id ?items) w"
  let ?s = "\<lparr>processed = length ?items,
             successful = length (filter (\<lambda>c. mail c = Delivered) ?items),
             failed = length (filter (\<lambda>c. mail c \<noteq> Delivered) ?items)\<rparr>"
  have split: "length ?items = length (filter (\<lambda>c. mail c = Delivered) ?items)
                 + length (filter (\<lambda>c. mail c \<noteq> Delivered) ?items)"
    using sum_length_filter_compl[of "\<lambda>c. mail c = Delivered" ?items] by simp
  have q: "wixQuery True (AbandonedCarts w) (firstReminderFilter now) 100 = Inr ?items"
    by (simp add: wixQuery_def)
  have r: "processAbandonedCarts mail now w = Inr (?w', ?s)"
    by (rule processAbandonedCarts_up[OF uc up])
  have n: "newlySent w ?w' = map cart_id (filter (\<lambda>c. mail c = Delivered) ?items)"
    by (rule newlySent_sendEach[OF page_query[OF uc]])
  have "wixQuery True (AbandonedCarts w) (firstReminderFilter now) 100 = Inr ?items
        \<and> processAbandonedCarts mail now w = Inr (?w', ?s)
        \<and> processed ?s = length ?items
        \<and> successful ?s = length (filter (\<lambda>c. mail c = Delivered) ?items)
        \<and> failed ?s = length (filter (\<lambda>c. mail c \<noteq> Delivered) ?items)
        \<and> processed ?s = successful ?s + failed ?s
        \<and> newlySent w ?w' = map cart_id (filter (\<lambda>c. mail c = Delivered) ?items)"
    using q r n split by simp
  then show "\<exists>w' s items.
          wixQuery True (AbandonedCarts w) (firstReminderFilter now) 100 = Inr items
        \<and> processAbandonedCarts mail now w = Inr (w', s)
        \<and> processed s = length items
        \<and> successful s = length (filter (\<lambda>c. mail c = Delivered) items)
        \<and> failed s = length (filter (\<lambda>c. mail c \<noteq> Delivered) items)
        \<and> processed s = successful s + failed s
        \<and> newlySent w w' = map cart_id (filter (\<lambda>c. mail c = Delivered) items)"
    by blast
next
  assume up: "storeUp w"
  let ?items = "take 50 (filter (secondReminderFilter now) (AbandonedCarts w))"
  let ?w' = "sendEach mail now (map cart_id ?items) w"
  have q: "wixQuery True (AbandonedCarts w) (secondReminderFilter now) 50 = Inr ?items"
    by (simp add: wixQuery_def)
  have r: "sendSecondReminder mail now w
             = Inr (?w', length (filter (\<lambda>c. \<not> threw (mail c)) ?items))"
    by (rule sendSecondReminder_up[OF uc up])
  have n: "newlySent w ?w' = map cart_id (filter (\<lambda>c. mail c = Delivered) ?items)"
    by (rule newlySent_sendEach[OF page_query[OF uc]])
  have le: "length (filter (\<lambda>c. \<not> threw (mail c)) ?items) \<le> length ?items"
    by (rule length_filter_le)
  show "\<exists>w' n items.
          wixQuery True (AbandonedCarts w) (secondReminderFilter now) 50 = Inr items
        \<and> sendSecondReminder mail now w = Inr (w', n)
        \<and> n \<le> length items
        \<and> newlySent w w' = map cart_id (filter (\<lambda>c. mail c = Delivered) items)"
    using q r n le by blast
next
  assume up: "storeUp w"
  let ?items = "take 1000 (Customers w)"
  let ?cs = "map (\<lambda>x. if x \<in> set ?items \<and> needsUpdate score x
                     then rescored score now x else x) (Customers w)"
  let ?s = "\<lparr>customers_processed = length ?items,
             customers_updated = length (filter (needsUpdate score) ?items)\<rparr>"
  have q: "wixQuery True (Customers w) (\<lambda>c. True) 1000 = Inr ?items"
    by (simp add: wixQuery_def)
  have r: "updateCustomerSegments score now w = Inr (w\<lparr>Customers := ?cs\<rparr>, ?s)"
    by (rule updateCustomerSegments_up[OF uu up])
  have "wixQuery True (Customers w) (\<lambda>c. True) 1000 = Inr ?items
        \<and> updateCustomerSegments score now w = Inr (w\<lparr>Customers := ?cs\<rparr>, ?s)
        \<and> customers_processed ?s = length ?items
        \<and> customers_updated ?s = length (filter (needsUpdate score) ?items)
        \<and> Customers (w\<lparr>Customers := ?cs\<rparr>) = ?cs"
    using q r by simp
  then show "\<exists>w' s items.
          wixQuery True (Customers w) (\<lambda>c. True) 1000 = Inr items
        \<and> updateCustomerSegments score now w = Inr (w', s)
        \<and> customers_processed s = length items
        \<and> customers_updated s = length (filter (needsUpdate score) items)
        \<and> Customers w' =
            map (\<lambda>x. if x \<in> set items \<and> needsUpdate score x
                     then rescored score now x else x) (Customers w)"
    by blast
next
  assume down: "\<not> storeUp x"
  show "cleanOldData answered now x = (x, Inl (Error ''data store unavailable''))"
    by (rule cleanOldData_down[OF down])
  show "isl (generateDailySalesReport rt now x)"
    by (simp add: generateDailySalesReport_down[OF down])
next
  assume up: "storeUp x"
  let ?b = "take 1000 (filter (\<lambda>r. timestamp r < now - daysMs 90) (BrowsingHistory x))"
  let ?i = "take 1000 (filter (\<lambda>r. timestamp r < now - daysMs 90) (CustomerInteractions x))"
  let ?c = "take 500 (filter (\<lambda>c. abandonedAt c < now - daysMs 90 \<and> recovered c)
                       (AbandonedCarts x))"
  have qb: "wixQuery True (BrowsingHistory x) (\<lambda>r. timestamp r < now - daysMs 90) 1000 = Inr ?b"
    and qi: "wixQuery True (CustomerInteractions x) (\<lambda>r. timestamp r < now - daysMs 90) 1000
               = Inr ?i"
    and qc: "wixQuery True (AbandonedCarts x)
               (\<lambda>c. abandonedAt c < now - daysMs 90 \<and> recovered c) 500 = Inr ?c"
    by (simp_all add: wixQuery_def)
  have run: "\<exists>x' s.
        cleanOldData answered now x = (x', Inr s)
      \<and> deletedBrowsingHistory s = length ?b
      \<and> deletedInteractions s = length ?i
      \<and> deletedCarts s = length ?c
      \<and> BrowsingHistory x' = filter (\<lambda>r. record_id r \<notin> record_id ` set ?b) (BrowsingHistory x)
      \<and> CustomerInteractions x' =
          filter (\<lambda>r. record_id r \<notin> record_id ` set ?i) (CustomerInteractions x)
      \<and> AbandonedCarts x' = filter (\<lambda>c. cart_id c \<notin> cart_id ` set ?c) (AbandonedCarts x)"
    if a: "(\<forall>r\<in>set ?b. answered ''BrowsingHistory'' (record_id r))
         \<and> (\<forall>r\<in>set ?i. answered ''CustomerInteractions'' (record_id r))
         \<and> (\<forall>c\<in>set ?c. answered ''AbandonedCarts'' (cart_id c))"
  proof -
    have ab: "\<And>r. r \<in> set ?b \<Longrightarrow> answered ''BrowsingHistory'' (record_id r)"
      and ai: "\<And>r. r \<in> set ?i \<Longrightarrow> answered ''CustomerInteractions'' (record_id r)"
      and ac: "\<And>r. r \<in> set ?c \<Longrightarrow> answered ''AbandonedCarts'' (cart_id r)"
      using a by blast+
    let ?x' = "x\<lparr>AbandonedCarts := filter (\<lambda>c. cart_id c \<notin> cart_id ` set ?c) (AbandonedCarts x),
                  BrowsingHistory :=
                    filter (\<lambda>r. record_id r \<notin> record_id ` set ?b) (BrowsingHistory x),
                  CustomerInteractions :=
                    filter (\<lambda>r. record_id r \<notin> record_id ` set ?i) (CustomerInteractions x)\<rparr>"
    let ?s = "\<lparr>deletedBrowsingHistory = length ?b, deletedInteractions = length ?i,
               deletedCarts = length ?c\<rparr>"
    have eq: "cleanOldData answered now x = (?x', Inr ?s)"
      by (rule cleanOldData_up[OF up ab ai ac])
    have "cleanOldData answered now x = (?x', Inr ?s)
        \<and> deletedBrowsingHistory ?s = length ?b
        \<and> deletedInteractions ?s = length ?i
        \<and> deletedCarts ?s = length ?c
        \<and> BrowsingHistory ?x' = filter (\<lambda>r. record_id r \<notin> record_id ` set ?b) (BrowsingHistory x)
        \<and> CustomerInteractions ?x' =
            filter (\<lambda>r. record_id r \<notin> record_id ` set ?i) (CustomerInteractions x)
        \<and> AbandonedCarts ?x' = filter (\<lambda>c. cart_id c \<notin> cart_id ` set ?c) (AbandonedCarts x)"
      using eq by simp
    then show ?thesis by blast
  qed
  show "\<exists>oldBrowsingHistory oldInteractions oldCarts.
          wixQuery True (BrowsingHistory x) (\<lambda>r. timestamp r < now - daysMs 90) 1000
            = Inr oldBrowsingHistory
        \<and> wixQuery True (CustomerInteractions x) (\<lambda>r. timestamp r < now - daysMs 90) 1000
            = Inr oldInteractions
        \<and> wixQuery True (AbandonedCarts x)
              (\<lambda>c. abandonedAt c < now - daysMs 90 \<and> recovered c) 500 = Inr oldCarts
        \<and> ((\<forall>r\<in>set oldBrowsingHistory. answered ''BrowsingHistory'' (record_id r))
            \<and> (\<forall>r\<in>set oldInteractions. answered ''CustomerInteractions'' (record_id r))
            \<and> (\<forall>c\<in>set oldCarts. answered ''AbandonedCarts'' (cart_id c))
            \<longrightarrow> (\<exists>x' s.
                    cleanOldData answered now x = (x', Inr s)
                  \<and> deletedBrowsingHistory s = length oldBrowsingHistory
                  \<and> deletedInteractions s = length oldInteractions
                  \<and> deletedCarts s = length oldCarts
                  \<and> BrowsingHistory x' =
                      filter (\<lambda>r. record_id r \<notin> record_id ` set oldBrowsingHistory)
                        (BrowsingHistory x)
                  \<and> CustomerInteractions x' =
                      filter (\<lambda>r. record_id r \<notin> record_id ` set oldInteractions)
                        (CustomerInteractions x)
                  \<and> AbandonedCarts x' =
                      filter (\<lambda>c. cart_id c \<notin> cart_id ` set oldCarts) (AbandonedCarts x)))"
    apply (rule exI[of _ ?b], rule exI[of _ ?i], rule exI[of _ ?c])
    using qb qi qc run by blast
  from generateDailySalesReport_up[OF up, of rt now]
  show "\<exists>x' r.
          generateDailySalesReport rt now x = Inr (x', r)
        \<and> DailyReports x' = DailyReports x @ [r]
        \<and> orders r = length (filter (\<lambda>order. now - hoursMs 24 \<le> createdDate order
                                             \<and> createdDate order < now) (Orders x))
        \<and> previousDayOrders r =
            length (filter (\<lambda>order. now - hoursMs 48 \<le> createdDate order
                                   \<and> createdDate order < now - hoursMs 24) (Orders x))"
    by force
qed

text \<open>
  Four carts, two customers: the send throws for one cart of each page and the scoring
  throws for one customer, and each pass goes on to the next item and returns its
  summary; the site is cleaned and reported on; and with the store not answering each
  of the five jobs throws.
\<close>

theorem C4_batch_passes_witness:
  "uniqueCartIds busyWorld \<and> uniqueCustomerIds busyWorld \<and> storeUp busyWorld
   \<and> (\<exists>w' s. processAbandonedCarts flakyMail (hoursMs 30) busyWorld = Inr (w', s)
          \<and> processed s = 2 \<and> successful s = 1 \<and> failed s = 1
          \<and> newlySent busyWorld w' = [''cart-b''])
   \<and> (\<exists>w' n. sendSecondReminder flakyMail (hoursMs 30) busyWorld = Inr (w', n)
          \<and> n \<le> 2 \<and> newlySent busyWorld w' = [''cart-d''])
   \<and> (\<exists>w' s. updateCustomerSegments flakyScore (hoursMs 30) busyWorld = Inr (w', s)
          \<and> customers_processed s = 2 \<and> customers_updated s = 1
          \<and> Customers w' =
              [newcomer, regular\<lparr>segment := Some VIP, valueScore := Some 900,
                                  lastSegmentUpdate := Some (hoursMs 30)\<rparr>])
   \<and> storeUp shop
   \<and> (\<exists>x' s. cleanOldData (\<lambda>coll i. True) (daysMs 100) shop = (x', Inr s)
          \<and> deletedBrowsingHistory s = 1 \<and> deletedInteractions s = 1 \<and> deletedCarts s = 1
          \<and> BrowsingHistory x' = [\<lparr>record_id = ''view-2'', timestamp = daysMs 99\<rparr>]
          \<and> CustomerInteractions x' = []
          \<and> AbandonedCarts x' = [agedCart (daysMs 99)])
   \<and> (\<forall>rt. \<exists>x' r. generateDailySalesReport rt (daysMs 100) shop = Inr (x', r)
          \<and> DailyReports x' = [r] \<and> orders r = 2 \<and> previousDayOrders r = 1)
   \<and> uniqueCartIds offlineWorld \<and> uniqueCustomerIds offlineWorld
   \<and> \<not> storeUp offlineWorld \<and> \<not> storeUp closedShop
   \<and> isl (processAbandonedCarts flakyMail (hoursMs 30) offlineWorld)
   \<and> isl (sendSecondReminder flakyMail (hoursMs 30) offlineWorld)
   \<and> isl (updateCustomerSegments flakyScore (hoursMs 30) offlineWorld)
   \<and> cleanOldData (\<lambda>coll i. True) (daysMs 100) closedShop
       = (closedShop, Inl (Error ''data store unavailable''))
   \<and> (\<forall>rt. isl (generateDailySalesReport rt (daysMs 100) closedShop))"
proof -
  let ?a = "(agedCart (hoursMs 28))\<lparr>cart_id := ''cart-a''\<rparr>"
  let ?b = "(agedCart (hoursMs 28))\<lparr>cart_id := ''cart-b''\<rparr>"
  let ?c = "remindedCart\<lparr>cart_id := ''cart-c''\<rparr>"
  let ?d = "remindedCart\<lparr>cart_id := ''cart-d''\<rparr>"
  have h1: "uniqueCartIds busyWorld" "uniqueCartIds offlineWorld"
    by (simp_all add: uniqueCartIds_def busyWorld_def offlineWorld_def soloWorld_def)
  have h2: "uniqueCustomerIds busyWorld" "uniqueCustomerIds offlineWorld"
    by (simp_all add: uniqueCustomerIds_def busyWorld_def offlineWorld_def soloWorld_def
        newcomer_def regular_def)
  have up: "storeUp busyWorld" "storeUp shop"
    and down: "\<not> storeUp offlineWorld" "\<not> storeUp closedShop"
    by (simp_all add: busyWorld_def shop_def offlineWorld_def closedShop_def soloWorld_def)
  have q1: "wixQuery True (AbandonedCarts busyWorld) (firstReminderFilter (hoursMs 30)) 100
              = Inr [?a, ?b]"
    by (simp add: wixQuery_def busyWorld_def firstReminderFilter_def agedCart_def
        remindedCart_def hoursMs_def)
  have q2: "wixQuery True (AbandonedCarts busyWorld) (secondReminderFilter (hoursMs 30)) 50
              = Inr [?c, ?d]"
    by (simp add: wixQuery_def busyWorld_def secondReminderFilter_def agedCart_def
        remindedCart_def hoursMs_def)
  have q3: "wixQuery True (Customers busyWorld) (\<lambda>c. True) 1000 = Inr [newcomer, regular]"
    by (simp add: wixQuery_def busyWorld_def)
  have m: "flakyMail ?a \<noteq> Delivered" "flakyMail ?b = Delivered"
    "flakyMail ?c \<noteq> Delivered" "flakyMail ?d = Delivered"
    by (simp_all add: flakyMail_def)
  have n: "\<not> needsUpdate flakyScore newcomer" "needsUpdate flakyScore regular"
    "rescored flakyScore (hoursMs 30) regular
       = regular\<lparr>segment := Some VIP, valueScore := Some 900,
                  lastSegmentUpdate := Some (hoursMs 30)\<rparr>"
    by (simp_all add: needsUpdate_def rescored_def flakyScore_def newcomer_def regular_def)
  have ne: "newcomer \<noteq> regular" by (simp add: newcomer_def regular_def)
  note t = C4_batch_passes[OF h1(1) h2(1), where mail = flakyMail and now = "hoursMs 30"
      and score = flakyScore and x = shop and answered = "\<lambda>coll i. True"]
  from t up(1) obtain w1 s1 items1 where
    a1: "wixQuery True (AbandonedCarts busyWorld) (firstReminderFilter (hoursMs 30)) 100 = Inr items1"
    and b1: "processAbandonedCarts flakyMail (hoursMs 30) busyWorld = Inr (w1, s1)"
    and c1: "processed s1 = length items1"
      "successful s1 = length (filter (\<lambda>c. flakyMail c = Delivered) items1)"
      "failed s1 = length (filter (\<lambda>c. flakyMail c \<noteq> Delivered) items1)"
      "newlySent busyWorld w1 = map cart_id (filter (\<lambda>c. flakyMail c = Delivered) items1)"
    by blast
  from a1 q1 have i1: "items1 = [?a, ?b]" by simp
  have first: "\<exists>w' s. processAbandonedCarts flakyMail (hoursMs 30) busyWorld = Inr (w', s)
          \<and> processed s = 2 \<and> successful s = 1 \<and> failed s = 1
          \<and> newlySent busyWorld w' = [''cart-b'']"
    using b1 c1 m unfolding i1 by (intro exI[of _ w1] exI[of _ s1]) simp
  from t up(1) obtain w2 n2 items2 where
    a2: "wixQuery True (AbandonedCarts busyWorld) (secondReminderFilter (hoursMs 30)) 50 = Inr items2"
    and b2: "sendSecondReminder flakyMail (hoursMs 30) busyWorld = Inr (w2, n2)"
    and c2: "n2 \<le> length items2"
      "newlySent busyWorld w2 = map cart_id (filter (\<lambda>c. flakyMail c = Delivered) items2)"
    by blast
  from a2 q2 have i2: "items2 = [?c, ?d]" by simp
  have second: "\<exists>w' n. sendSecondReminder flakyMail (hoursMs 30) busyWorld = Inr (w', n)
          \<and> n \<le> 2 \<and> newlySent busyWorld w' = [''cart-d'']"
    using b2 c2 m unfolding i2 by (intro exI[of _ w2] exI[of _ n2]) simp
  from t up(1) obtain w3 s3 items3 where
    a3: "wixQuery True (Customers busyWorld) (\<lambda>c. True) 1000 = Inr items3"
    and b3: "updateCustomerSegments flakyScore (hoursMs 30) busyWorld = Inr (w3, s3)"
    and c3: "customers_processed s3 = length items3"
      "customers_updated s3 = length (filter (needsUpdate flakyScore) items3)"
      "Customers w3 = map (\<lambda>x. if x \<in> set items3 \<and> needsUpdate flakyScore x
                               then rescored flakyScore (hoursMs 30) x else x)
                         (Customers busyWorld)"
    by blast
  from a3 q3 have i3: "items3 = [newcomer, regular]" by simp
  have cs: "Customers busyWorld = [newcomer, regular]" by (simp add: busyWorld_def)
  have third: "\<exists>w' s. updateCustomerSegments flakyScore (hoursMs 30) busyWorld = Inr (w', s)
          \<and> customers_processed s = 2 \<and> customers_updated s = 1
          \<and> Customers w' =
              [newcomer, regular\<lparr>segment := Some VIP, valueScore := Some 900,
                                  lastSegmentUpdate := Some (hoursMs 30)\<rparr>]"
    using b3 c3 n ne unfolding i3 cs by (intro exI[of _ w3] exI[of _ s3]) simp
  let ?old = "\<lparr>record_id = ''view-1'', timestamp = 0\<rparr>"
  let ?chat = "\<lparr>record_id = ''chat-1'', timestamp = 0\<rparr>"
  have qb: "wixQuery True (BrowsingHistory shop) (\<lambda>r. timestamp r < daysMs 100 - daysMs 90) 1000
              = Inr [?old]"
    and qi: "wixQuery True (CustomerInteractions shop)
               (\<lambda>r. timestamp r < daysMs 100 - daysMs 90) 1000 = Inr [?chat]"
    and qc: "wixQuery True (AbandonedCarts shop)
               (\<lambda>c. abandonedAt c < daysMs 100 - daysMs 90 \<and> recovered c) 500
              = Inr [recoveredCart]"
    by (simp_all add: wixQuery_def shop_def daysMs_def recoveredCart_def agedCart_def)
  note t' = C4_batch_passes[OF h1(1) h2(1), where mail = flakyMail and now = "daysMs 100"
      and score = flakyScore and x = shop and answered = "\<lambda>coll i. True"]
  from t' up(2) obtain ob oi oc where
    a4: "wixQuery True (BrowsingHistory shop) (\<lambda>r. timestamp r < daysMs 100 - daysMs 90) 1000
           = Inr ob"
      "wixQuery True (CustomerInteractions shop) (\<lambda>r. timestamp r < daysMs 100 - daysMs 90) 1000
           = Inr oi"
      "wixQuery True (AbandonedCarts shop)
           (\<lambda>c. abandonedAt c < daysMs 100 - daysMs 90 \<and> recovered c) 500 = Inr oc"
    and b4: "\<exists>x' s. cleanOldData (\<lambda>coll i. True) (daysMs 100) shop = (x', Inr s)
          \<and> deletedBrowsingHistory s = length ob
          \<and> deletedInteractions s = length oi
          \<and> deletedCarts s = length oc
          \<and> BrowsingHistory x' = filter (\<lambda>r. record_id r \<notin> record_id ` set ob) (BrowsingHistory shop)
          \<and> CustomerInteractions x' =
              filter (\<lambda>r. record_id r \<notin> record_id ` set oi) (CustomerInteractions shop)
          \<and> AbandonedCarts x' = filter (\<lambda>c. cart_id c \<notin> cart_id ` set oc) (AbandonedCarts shop)"
    by blast
  from a4 qb qi qc have i4: "ob = [?old]" "oi = [?chat]" "oc = [recoveredCart]" by simp_all
  from b4 obtain x4 s4 where
    c4: "cleanOldData (\<lambda>coll i. True) (daysMs 100) shop = (x4, Inr s4)"
      "deletedBrowsingHistory s4 = length ob" "deletedInteractions s4 = length oi"
      "deletedCarts s4 = length oc"
      "BrowsingHistory x4 = filter (\<lambda>r. record_id r \<notin> record_id ` set ob) (BrowsingHistory shop)"
      "CustomerInteractions x4 =
         filter (\<lambda>r. record_id r \<notin> record_id ` set oi) (CustomerInteractions shop)"
      "AbandonedCarts x4 = filter (\<lambda>c. cart_id c \<notin> cart_id ` set oc) (AbandonedCarts shop)"
    by blast
  have fourth: "\<exists>x' s. cleanOldData (\<lambda>coll i. True) (daysMs 100) shop = (x', Inr s)
          \<and> deletedBrowsingHistory s = 1 \<and> deletedInteractions s = 1 \<and> deletedCarts s = 1
          \<and> BrowsingHistory x' = [\<lparr>record_id = ''view-2'', timestamp = daysMs 99\<rparr>]
          \<and> CustomerInteractions x' = []
          \<and> AbandonedCarts x' = [agedCart (daysMs 99)]"
    using c4 unfolding i4
    by (intro exI[of _ x4] exI[of _ s4]) (simp add: shop_def recoveredCart_def agedCart_def)
  have today: "length (filter (\<lambda>order. daysMs 100 - hoursMs 24 \<le> createdDate order
                                      \<and> createdDate order < daysMs 100) (Orders shop)) = 2"
    and before: "length (filter (\<lambda>order. daysMs 100 - hoursMs 48 \<le> createdDate order
                                      \<and> createdDate order < daysMs 100 - hoursMs 24) (Orders shop)) = 1"
    by (simp_all add: shop_def daysMs_def hoursMs_def)
  have reports: "DailyReports shop = []" by (simp add: shop_def)
  have fifth: "\<exists>x' r. generateDailySalesReport rt (daysMs 100) shop = Inr (x', r)
          \<and> DailyReports x' = [r] \<and> orders r = 2 \<and> previousDayOrders r = 1" for rt
  proof -
    from C4_batch_passes[OF h1(1) h2(1), where mail = flakyMail and now = "daysMs 100"
      and score = flakyScore and x = shop and answered = "\<lambda>coll i. True" and rt = rt] up(2)
    obtain x5 r5 where
      "generateDailySalesReport rt (daysMs 100) shop = Inr (x5, r5)"
      "DailyReports x5 = DailyReports shop @ [r5]"
      "orders r5 = length (filter (\<lambda>order. daysMs 100 - hoursMs 24 \<le> createdDate order
                                      \<and> createdDate order < daysMs 100) (Orders shop))"
      "previousDayOrders r5 =
         length (filter (\<lambda>order. daysMs 100 - hoursMs 48 \<le> createdDate order
                                  \<and> createdDate order < daysMs 100 - hoursMs 24) (Orders shop))"
      by blast
    then show ?thesis
      unfolding today before reports by (intro exI[of _ x5] exI[of _ r5]) simp
  qed
  have closed: "isl (processAbandonedCarts flakyMail (hoursMs 30) offlineWorld)"
    "isl (sendSecondReminder flakyMail (hoursMs 30) offlineWorld)"
    "isl (updateCustomerSegments flakyScore (hoursMs 30) offlineWorld)"
    using C4_batch_passes[OF h1(2) h2(2), where mail = flakyMail and now = "hoursMs 30"
      and score = flakyScore and x = closedShop and answered = "\<lambda>coll i. True"] down(1)
    by blast+
  have sixth: "cleanOldData (\<lambda>coll i. True) (daysMs 100) closedShop
       = (closedShop, Inl (Error ''data store unavailable''))"
    using C4_batch_passes[OF h1(2) h2(2), where mail = flakyMail and now = "daysMs 100"
      and score = flakyScore and x = closedShop and answered = "\<lambda>coll i. True"] down(2)
    by blast
  have seventh: "isl (generateDailySalesReport rt (daysMs 100) closedShop)" for rt
    using C4_batch_passes[OF h1(2) h2(2), where mail = flakyMail and now = "daysMs 100"
      and score = flakyScore and x = closedShop and answered = "\<lambda>coll i. True" and rt = rt]
      down(2)
    by blast
  show ?thesis
    using h1 h2 up down first second third fourth fifth closed sixth seventh by blast
qed

text \<open>
  C4 as stated fails. With the data store not answering, each of the five jobs throws
  past its boundary instead of returning a summary. And a summary need not record an
  item's error: \<^verbatim>\<open>updateCustomerSegments\<close> returns the same \<^verbatim>\<open>{processed: 2, updated: 1}\<close>
  when the scoring of the first customer throws and when it answers with the stored
  segment.
\<close>

theorem C4_rethrow_and_summary_counterexample:
  "processAbandonedCarts (\<lambda>c. Delivered) (hoursMs 2) offlineWorld
     = Inl (Error ''data store unavailable'')
   \<and> sendSecondReminder (\<lambda>c. Delivered) (hoursMs 2) offlineWorld
     = Inl (Error ''data store unavailable'')
   \<and> updateCustomerSegments regularScore (hoursMs 2) offlineWorld
     = Inl (Error ''data store unavailable'')
   \<and> cleanOldData (\<lambda>coll i. True) (daysMs 100) closedShop
     = (closedShop, Inl (Error ''data store unavailable''))
   \<and> (\<forall>rt. generateDailySalesReport rt (daysMs 100) closedShop
          = Inl (Error ''data store unavailable''))
   \<and> flakyScore ''customer-1'' = ScoreThrown ''score unavailable''
   \<and> (\<exists>w'. updateCustomerSegments flakyScore (hoursMs 30) busyWorld
          = Inr (w', \<lparr>customers_processed = 2, customers_updated = 1\<rparr>))
   \<and> (\<exists>w'. updateCustomerSegments steadyScore (hoursMs 30) busyWorld
          = Inr (w', \<lparr>customers_processed = 2, customers_updated = 1\<rparr>))"
proof -
  have thrown: "processAbandonedCarts (\<lambda>c. Delivered) (hoursMs 2) offlineWorld
       = Inl (Error ''data store unavailable'')"
    "sendSecondReminder (\<lambda>c. Delivered) (hoursMs 2) offlineWorld
       = Inl (Error ''data store unavailable'')"
    "updateCustomerSegments regularScore (hoursMs 2) offlineWorld
       = Inl (Error ''data store unavailable'')"
    "cleanOldData (\<lambda>coll i. True) (daysMs 100) closedShop
       = (closedShop, Inl (Error ''data store unavailable''))"
    "\<forall>rt. generateDailySalesReport rt (daysMs 100) closedShop
          = Inl (Error ''data store unavailable'')"
    by (simp_all add: processAbandonedCarts_def sendSecondReminder_def
        updateCustomerSegments_def cleanOldData_def generateDailySalesReport_def wixFind_def
        wixQuery_def offlineWorld_def soloWorld_def closedShop_def shop_def)
  have flaky: "flakyScore ''customer-1'' = ScoreThrown ''score unavailable''"
    by (simp add: flakyScore_def)
  have a: "\<exists>w'. updateCustomerSegments flakyScore (hoursMs 30) busyWorld
          = Inr (w', \<lparr>customers_processed = 2, customers_updated = 1\<rparr>)"
    by (simp add: updateCustomerSegments_def wixQuery_def busyWorld_def flakyScore_def
        newcomer_def regular_def)
  have b: "\<exists>w'. updateCustomerSegments steadyScore (hoursMs 30) busyWorld
          = Inr (w', \<lparr>customers_processed = 2, customers_updated = 1\<rparr>)"
    by (simp add: updateCustomerSegments_def wixQuery_def busyWorld_def steadyScore_def
        newcomer_def regular_def)
  show ?thesis using thrown flaky a b by blast
qed

subsection \<open>C5: the order of the intent patterns\<close>

text \<open>
  C5. \<^verbatim>\<open>processUserInput\<close> answers as the ordered table does: the patterns are tried on
  the lowered input in the order greeting, product-search/recommendation, discount,
  cart/checkout, shipping, hours, location, thanks, goodbye, help, and the first that
  matches alone decides the reply; unmatched input gets a fallback text. The input
  "hi, do you have any discount codes" matches the greeting pattern and the discount
  pattern, and its reply is a greeting text, whatever the offer engine would answer.
\<close>

theorem C5_first_match_wins:
  "processUserInput e st input =
     firstMatchWins (dispatchTable e st)
       (text_reply (getRandomResponse (mathRandom e) RESPONSES_fallback)) (toLowerCase input)
   \<and> INTENT_greeting (toLowerCase discountQuestion)
   \<and> INTENT_discount (toLowerCase discountQuestion)
   \<and> processUserInput e st discountQuestion
       = text_reply (getRandomResponse (mathRandom e) RESPONSES_greeting)"
proof (intro conjI)
  show "processUserInput e st input =
     firstMatchWins (dispatchTable e st)
       (text_reply (getRandomResponse (mathRandom e) RESPONSES_fallback)) (toLowerCase input)"
    by (simp add: processUserInput_def firstMatchWins_def dispatchTable_def Let_def)
  show g: "INTENT_greeting (toLowerCase discountQuestion)"
    unfolding discountQuestion_def by code_simp
  show "INTENT_discount (toLowerCase discountQuestion)"
    unfolding discountQuestion_def by code_simp
  show "processUserInput e st discountQuestion
       = text_reply (getRandomResponse (mathRandom e) RESPONSES_greeting)"
    using g by (simp add: processUserInput_def Let_def)
qed

text \<open>A question that matches the recommendation pattern and the help pattern goes to
  the recommendation handler.\<close>

theorem C5_first_match_wins_witness:
  "INTENT_recommendations (toLowerCase recommendQuestion)
   \<and> INTENT_help (toLowerCase recommendQuestion)
   \<and> processUserInput sampleEngines newChatBotState recommendQuestion
        = handleProductRecommendation sampleEngines newChatBotState"
proof -
  have ng: "\<not> INTENT_greeting (toLowerCase recommendQuestion)"
    unfolding recommendQuestion_def by code_simp
  have r: "INTENT_recommendations (toLowerCase recommendQuestion)"
    unfolding recommendQuestion_def by code_simp
  have h: "INTENT_help (toLowerCase recommendQuestion)"
    unfolding recommendQuestion_def by code_simp
  have "firstMatchWins (dispatchTable sampleEngines newChatBotState)
          (text_reply (getRandomResponse (mathRandom sampleEngines) RESPONSES_fallback))
          (toLowerCase recommendQuestion)
        = handleProductRecommendation sampleEngines newChatBotState"
    using ng r by (simp add: firstMatchWins_def dispatchTable_def)
  then show ?thesis
    using r h C5_first_match_wins[of sampleEngines newChatBotState recommendQuestion] by simp
qed

subsection \<open>C6: re-scoring twice\<close>



subsection \<open>C7: the conversation state\<close>




subsection \<open>C8: eligibility by elapsed time\<close>

text \<open>
  C8, as amended. The two scheduled passes select by a closed interval on elapsed time:
  a cart selected for the first reminder was abandoned between 1 and 24 hours before
  \<open>now\<close>, a cart selected for the second reminder got its last reminder between 24 and
  48 hours before \<open>now\<close>. The bulk recovery endpoint selects by a single cutoff: a cart
  it selects was abandoned at least \<open>hoursOld\<close> hours before \<open>now\<close> (1 hour when the
  request gives none), and every unemailed, unrecovered cart that old is eligible,
  however old it is.
\<close>

theorem C8_eligibility_bounds:
  "(wixQuery up carts (firstReminderFilter now) 100 = Inr items \<and> c \<in> set items
      \<longrightarrow> hoursMs 1 \<le> now - abandonedAt c \<and> now - abandonedAt c \<le> hoursMs 24)
   \<and> (wixQuery up carts (secondReminderFilter now) 50 = Inr items \<and> c \<in> set items
      \<longrightarrow> (\<exists>t. lastReminderAt c = Some t \<and> hoursMs 24 \<le> now - t \<and> now - t \<le> hoursMs 48))
   \<and> (wixQuery up carts (bulkRecoveryFilter h now) 50 = Inr items \<and> c \<in> set items
      \<longrightarrow> hoursMs (bulkHoursOld h) \<le> now - abandonedAt c)
   \<and> (hoursMs (bulkHoursOld h) \<le> now - abandonedAt c \<and> \<not> emailSent c \<and> \<not> recovered c
      \<longrightarrow> wixQuery True [c] (bulkRecoveryFilter h now) 50 = Inr [c])"
proof (intro conjI impI)
  assume a: "wixQuery up carts (firstReminderFilter now) 100 = Inr items \<and> c \<in> set items"
  have f: "firstReminderFilter now c"
    using query_member[OF conjunct1[OF a] conjunct2[OF a]] by simp
  from f show "hoursMs 1 \<le> now - abandonedAt c" by (simp add: firstReminderFilter_def)
  from f show "now - abandonedAt c \<le> hoursMs 24" by (simp add: firstReminderFilter_def)
next
  assume a: "wixQuery up carts (secondReminderFilter now) 50 = Inr items \<and> c \<in> set items"
  have "secondReminderFilter now c"
    using query_member[OF conjunct1[OF a] conjunct2[OF a]] by simp
  then show "\<exists>t. lastReminderAt c = Some t \<and> hoursMs 24 \<le> now - t \<and> now - t \<le> hoursMs 48"
    by (auto simp: secondReminderFilter_def split: option.splits)
next
  assume a: "wixQuery up carts (bulkRecoveryFilter h now) 50 = Inr items \<and> c \<in> set items"
  have "bulkRecoveryFilter h now c"
    using query_member[OF conjunct1[OF a] conjunct2[OF a]] by simp
  then show "hoursMs (bulkHoursOld h) \<le> now - abandonedAt c"
    by (simp add: bulkRecoveryFilter_def)
next
  assume "hoursMs (bulkHoursOld h) \<le> now - abandonedAt c \<and> \<not> emailSent c \<and> \<not> recovered c"
  then show "wixQuery True [c] (bulkRecoveryFilter h now) 50 = Inr [c]"
    by (simp add: wixQuery_def bulkRecoveryFilter_def)
qed

text \<open>At a cart abandoned 2 hours ago (first reminder), at a cart reminded 30 hours
  ago (second reminder) and at one abandoned 1000 hours ago (bulk recovery, no
  \<open>hoursOld\<close>).\<close>

theorem C8_eligibility_bounds_witness:
  "wixQuery True [agedCart 0] (firstReminderFilter (hoursMs 2)) 100 = Inr [agedCart 0]
   \<and> hoursMs 1 \<le> hoursMs 2 - abandonedAt (agedCart 0)
   \<and> hoursMs 2 - abandonedAt (agedCart 0) \<le> hoursMs 24
   \<and> wixQuery True [remindedCart] (secondReminderFilter (hoursMs 30)) 50 = Inr [remindedCart]
   \<and> (\<exists>t. lastReminderAt remindedCart = Some t \<and> hoursMs 24 \<le> hoursMs 30 - t
            \<and> hoursMs 30 - t \<le> hoursMs 48)
   \<and> hoursMs (bulkHoursOld None) \<le> hoursMs 1000 - abandonedAt (agedCart 0)
   \<and> wixQuery True [agedCart 0] (bulkRecoveryFilter None (hoursMs 1000)) 50 = Inr [agedCart 0]"
proof -
  have q: "wixQuery True [agedCart 0] (firstReminderFilter (hoursMs 2)) 100 = Inr [agedCart 0]"
    by (simp add: wixQuery_def firstReminderFilter_def agedCart_def hoursMs_def)
  have q2: "wixQuery True [remindedCart] (secondReminderFilter (hoursMs 30)) 50 = Inr [remindedCart]"
    by (simp add: wixQuery_def secondReminderFilter_def remindedCart_def agedCart_def hoursMs_def)
  have old: "hoursMs (bulkHoursOld None) \<le> hoursMs 1000 - abandonedAt (agedCart 0)
             \<and> \<not> emailSent (agedCart 0) \<and> \<not> recovered (agedCart 0)"
    by (simp add: agedCart_def hoursMs_def bulkHoursOld_def)
  have w1: "hoursMs 1 \<le> hoursMs 2 - abandonedAt (agedCart 0)
            \<and> hoursMs 2 - abandonedAt (agedCart 0) \<le> hoursMs 24"
    using q C8_eligibility_bounds[where up = True and carts = "[agedCart 0]" and now = "hoursMs 2"
        and items = "[agedCart 0]" and c = "agedCart 0"]
    by simp
  have w2: "\<exists>t. lastReminderAt remindedCart = Some t \<and> hoursMs 24 \<le> hoursMs 30 - t
            \<and> hoursMs 30 - t \<le> hoursMs 48"
    using q2 C8_eligibility_bounds[where up = True and carts = "[remindedCart]" and now = "hoursMs 30"
        and items = "[remindedCart]" and c = remindedCart]
    by simp
  have w3: "wixQuery True [agedCart 0] (bulkRecoveryFilter None (hoursMs 1000)) 50 = Inr [agedCart 0]"
    using old C8_eligibility_bounds[where now = "hoursMs 1000" and c = "agedCart 0" and h = None]
    by blast
  show ?thesis using q q2 old w1 w2 w3 by blast
qed

text \<open>
  C8 as stated fails for the bulk recovery endpoint: no upper bound on the elapsed time
  limits the carts its filter accepts.
\<close>

theorem C8_bulk_no_upper_bound_counterexample:
  "\<not> (\<exists>hi. \<forall>now c. bulkRecoveryFilter None now c \<longrightarrow> now - abandonedAt c \<le> hi)"
proof
  assume "\<exists>hi. \<forall>now c. bulkRecoveryFilter None now c \<longrightarrow> now - abandonedAt c \<le> hi"
  then obtain hi where
    hi: "\<And>now c. bulkRecoveryFilter None now c \<Longrightarrow> now - abandonedAt c \<le> hi"
    by blast
  have "bulkRecoveryFilter None (max hi 0 + hoursMs 1) (agedCart 0)"
    by (simp add: bulkRecoveryFilter_def bulkHoursOld_def agedCart_def)
  from hi[OF this] show False by (simp add: agedCart_def)
qed

subsection \<open>C9: recommendations in the chat\<close>

text \<open>
  C9. A message that is not a greeting and matches the recommendation or the
  product-search pattern is answered by the recommendation handler. The handler asks
  for 3 personalized recommendations for the customer when the customer id is set, not
  empty and not a guest's, and for 3 trending products otherwise. Its reply carries the
  products when the call succeeded with a non-empty list; when the call throws, fails,
  gives no list or an empty one, the reply is the canned menu text, never an error.
\<close>

theorem C9_recommendation_dispatch:
  "(\<not> INTENT_greeting (toLowerCase input)
      \<and> (INTENT_recommendations (toLowerCase input) \<or> INTENT_productSearch (toLowerCase input))
      \<longrightarrow> processUserInput e st input = handleProductRecommendation e st)
   \<and> (customerId st = Some cid \<and> knownCustomer st
      \<longrightarrow> handleProductRecommendation e st
            = recommendationReply (getPersonalizedRecommendations e cid 3))
   \<and> (\<not> knownCustomer st
      \<longrightarrow> handleProductRecommendation e st = recommendationReply (getTrendingProducts e 3))
   \<and> recommendationReply (RecommendationsThrown m) = text_reply menuText
   \<and> recommendationReply (RecommendationsReturned False recs) = text_reply menuText
   \<and> recommendationReply (RecommendationsReturned True None) = text_reply menuText
   \<and> recommendationReply (RecommendationsReturned True (Some [])) = text_reply menuText
   \<and> (ps \<noteq> [] \<longrightarrow> recommendationReply (RecommendationsReturned True (Some ps))
                      = products_reply productsText ps)"
proof (intro conjI)
  show "\<not> INTENT_greeting (toLowerCase input)
      \<and> (INTENT_recommendations (toLowerCase input) \<or> INTENT_productSearch (toLowerCase input))
      \<longrightarrow> processUserInput e st input = handleProductRecommendation e st"
    by (simp add: processUserInput_def Let_def)
  show "customerId st = Some cid \<and> knownCustomer st
      \<longrightarrow> handleProductRecommendation e st
            = recommendationReply (getPersonalizedRecommendations e cid 3)"
  proof
    assume a: "customerId st = Some cid \<and> knownCustomer st"
    then have c: "customerId st = Some cid" and k: "knownCustomer st"
      by simp_all
    from k have "cid \<noteq> [] \<and> \<not> startsWith cid ''guest_''"
      unfolding knownCustomer_def c by simp
    then show "handleProductRecommendation e st
            = recommendationReply (getPersonalizedRecommendations e cid 3)"
      unfolding handleProductRecommendation_reply c by simp
  qed
  show "\<not> knownCustomer st
      \<longrightarrow> handleProductRecommendation e st = recommendationReply (getTrendingProducts e 3)"
    by (cases "customerId st") (simp_all add: handleProductRecommendation_reply knownCustomer_def)
qed (simp_all add: recommendationReply_def productsOf_def)

text \<open>The member gets the personalized product, the guest the trending one, and the
  guest gets the menu text when the trending call throws.\<close>

theorem C9_recommendation_dispatch_witness:
  "\<not> INTENT_greeting (toLowerCase recommendQuestion)
   \<and> INTENT_recommendations (toLowerCase recommendQuestion)
   \<and> knownCustomer memberState \<and> \<not> knownCustomer sharedState
   \<and> processUserInput sampleEngines memberState recommendQuestion
        = products_reply productsText [churro]
   \<and> processUserInput sampleEngines sharedState recommendQuestion
        = products_reply productsText [flan]
   \<and> handleProductRecommendation
         (sampleEngines\<lparr>getTrendingProducts := (\<lambda>n. RecommendationsThrown ''timeout'')\<rparr>) sharedState
        = text_reply menuText"
proof -
  have ng: "\<not> INTENT_greeting (toLowerCase recommendQuestion)"
    unfolding recommendQuestion_def by code_simp
  have r: "INTENT_recommendations (toLowerCase recommendQuestion)"
    unfolding recommendQuestion_def by code_simp
  have k: "knownCustomer memberState"
    unfolding knownCustomer_def memberState_customer by code_simp
  have g: "\<not> knownCustomer sharedState"
    unfolding knownCustomer_def sharedState_customer by code_simp
  note t1 = C9_recommendation_dispatch[of recommendQuestion sampleEngines memberState
      "''member-1''" "[]" None "[churro]"]
  note t2 = C9_recommendation_dispatch[of recommendQuestion sampleEngines sharedState
      "''member-1''" "[]" None "[flan]"]
  note t3 = C9_recommendation_dispatch[of recommendQuestion
      "sampleEngines\<lparr>getTrendingProducts := (\<lambda>n. RecommendationsThrown ''timeout'')\<rparr>"
      sharedState "''member-1''" "''timeout''" None "[flan]"]
  have a: "processUserInput sampleEngines memberState recommendQuestion
        = products_reply productsText [churro]"
    using t1 ng r k memberState_customer by (simp add: sampleEngines_def)
  have b: "processUserInput sampleEngines sharedState recommendQuestion
        = products_reply productsText [flan]"
    using t2 ng r g by (simp add: sampleEngines_def)
  have c: "handleProductRecommendation
         (sampleEngines\<lparr>getTrendingProducts := (\<lambda>n. RecommendationsThrown ''timeout'')\<rparr>) sharedState
        = text_reply menuText"
    using t3 g by simp
  show ?thesis using ng r k g a b c by simp
qed

subsection \<open>C10: the cart-abandonment webhook\<close>

text \<open>
  C10. For a parsed body, the webhook answers the validation rejection exactly when
  \<^verbatim>\<open>customerId\<close> or \<^verbatim>\<open>cartItems\<close> is missing, that is absent or falsy
  (\<^verbatim>\<open>!body.customerId || !body.cartItems\<close>); no other request is rejected so. Every
  other body is handed to \<^verbatim>\<open>trackAbandonedCart\<close> with its customer id, its items and its
  total, where an absent or falsy \<^verbatim>\<open>cartTotal\<close> (such as \<open>0\<close>) is passed as \<open>0\<close>; and
  the answer is \<^verbatim>\<open>ok\<close> with the tracker's result when it reports success.
\<close>

theorem C10_cart_abandoned_webhook:
  "(body \<noteq> JNull
      \<and> (\<not> truthyProp (getProp body ''customerId'') \<or> \<not> truthyProp (getProp body ''cartItems''))
      \<longrightarrow> post_cartAbandoned track (Inr body)
            = badRequest (ErrorBody ''Missing required fields: customerId, cartItems'' None))
   \<and> (getProp body ''customerId'' = Some cid \<and> truthy cid
      \<and> getProp body ''cartItems'' = Some items \<and> truthy items
      \<longrightarrow> post_cartAbandoned track (Inr body)
            = respondTracked (track cid items (cartTotalOrZero (getProp body ''cartTotal''))))
   \<and> (\<not> truthyProp tot \<longrightarrow> cartTotalOrZero tot = JNum 0)
   \<and> (truthy j \<longrightarrow> cartTotalOrZero (Some j) = j)
   \<and> respondTracked (TrackReturned True result) = ok (Payload result)
   \<and> (post_cartAbandoned track request = badRequest b
      \<longrightarrow> (\<exists>body'. request = Inr body'
            \<and> (\<not> truthyProp (getProp body' ''customerId'')
                \<or> \<not> truthyProp (getProp body' ''cartItems''))))"
proof (intro conjI)
  show "body \<noteq> JNull
      \<and> (\<not> truthyProp (getProp body ''customerId'') \<or> \<not> truthyProp (getProp body ''cartItems''))
      \<longrightarrow> post_cartAbandoned track (Inr body)
            = badRequest (ErrorBody ''Missing required fields: customerId, cartItems'' None)"
    by (cases body)
       (auto simp: post_cartAbandoned_def truthyProp_def split: option.splits)
  show "getProp body ''customerId'' = Some cid \<and> truthy cid
      \<and> getProp body ''cartItems'' = Some items \<and> truthy items
      \<longrightarrow> post_cartAbandoned track (Inr body)
            = respondTracked (track cid items (cartTotalOrZero (getProp body ''cartTotal'')))"
    by (cases body) (auto simp: post_cartAbandoned_def)
  show "\<not> truthyProp tot \<longrightarrow> cartTotalOrZero tot = JNum 0"
    by (cases tot) (simp_all add: truthyProp_def cartTotalOrZero_def)
  show "truthy j \<longrightarrow> cartTotalOrZero (Some j) = j"
    by (simp add: cartTotalOrZero_def)
  show "respondTracked (TrackReturned True result) = ok (Payload result)"
    by (simp add: respondTracked_def)
  show "post_cartAbandoned track request = badRequest b
      \<longrightarrow> (\<exists>body'. request = Inr body'
            \<and> (\<not> truthyProp (getProp body' ''customerId'')
                \<or> \<not> truthyProp (getProp body' ''cartItems'')))"
  proof
    assume bad: "post_cartAbandoned track request = badRequest b"
    show "\<exists>body'. request = Inr body'
            \<and> (\<not> truthyProp (getProp body' ''customerId'')
                \<or> \<not> truthyProp (getProp body' ''cartItems''))"
    proof (cases request)
      case (Inl err)
      then show ?thesis using bad by (cases err) (simp add: post_cartAbandoned_def)
    next
      case (Inr body')
      have "\<not> truthyProp (getProp body' ''customerId'')
                \<or> \<not> truthyProp (getProp body' ''cartItems'')"
        using bad unfolding Inr
        by (cases body')
           (auto simp: post_cartAbandoned_def truthyProp_def respondTracked_not_badRequest
                 split: option.splits if_splits)
      then show ?thesis using Inr by blast
    qed
  qed
qed

text \<open>A body without \<^verbatim>\<open>cartTotal\<close> is tracked with total 0, a body with the total 42
  with that total; a body without \<^verbatim>\<open>customerId\<close> is rejected.\<close>

theorem C10_cart_abandoned_webhook_witness:
  "getProp bareRequest ''customerId'' = Some (JStr ''customer-1'')
   \<and> getProp bareRequest ''cartItems'' = Some (JArr [])
   \<and> getProp bareRequest ''cartTotal'' = None
   \<and> post_cartAbandoned echoTracker (Inr bareRequest)
        = ok (Payload (JObj [(''customerId'', JStr ''customer-1''), (''cartTotal'', JNum 0)]))
   \<and> post_cartAbandoned echoTracker (Inr pricedRequest)
        = ok (Payload (JObj [(''customerId'', JStr ''customer-1''), (''cartTotal'', JNum 42)]))
   \<and> post_cartAbandoned echoTracker (Inr (JObj [(''cartItems'', JArr [])]))
        = badRequest (ErrorBody ''Missing required fields: customerId, cartItems'' None)
   \<and> \<not> truthyProp (getProp (JObj [(''cartItems'', JArr [])]) ''customerId'')"
proof -
  have p: "getProp bareRequest ''customerId'' = Some (JStr ''customer-1'')"
       "getProp bareRequest ''cartItems'' = Some (JArr [])"
       "getProp bareRequest ''cartTotal'' = None"
    by (simp_all add: bareRequest_def)
  have p': "getProp pricedRequest ''customerId'' = Some (JStr ''customer-1'')"
       "getProp pricedRequest ''cartItems'' = Some (JArr [])"
       "getProp pricedRequest ''cartTotal'' = Some (JNum 42)"
    by (simp_all add: pricedRequest_def)
  note t = C10_cart_abandoned_webhook[where body = bareRequest and cid = "JStr ''customer-1''"
      and items = "JArr []" and track = echoTracker and tot = None]
  have "post_cartAbandoned echoTracker (Inr bareRequest)
        = respondTracked (echoTracker (JStr ''customer-1'') (JArr [])
            (cartTotalOrZero (getProp bareRequest ''cartTotal'')))"
    using t p by simp
  moreover have "cartTotalOrZero (getProp bareRequest ''cartTotal'') = JNum 0"
    using t p by (simp add: truthyProp_def)
  ultimately have a: "post_cartAbandoned echoTracker (Inr bareRequest)
        = ok (Payload (JObj [(''customerId'', JStr ''customer-1''), (''cartTotal'', JNum 0)]))"
    by (simp add: echoTracker_def respondTracked_def)
  note u = C10_cart_abandoned_webhook[where body = pricedRequest and cid = "JStr ''customer-1''"
      and items = "JArr []" and track = echoTracker and j = "JNum 42"]
  have "post_cartAbandoned echoTracker (Inr pricedRequest)
        = respondTracked (echoTracker (JStr ''customer-1'') (JArr [])
            (cartTotalOrZero (getProp pricedRequest ''cartTotal'')))"
    using u p' by simp
  moreover have "cartTotalOrZero (getProp pricedRequest ''cartTotal'') = JNum 42"
    using u p' by simp
  ultimately have a': "post_cartAbandoned echoTracker (Inr pricedRequest)
        = ok (Payload (JObj [(''customerId'', JStr ''customer-1''), (''cartTotal'', JNum 42)]))"
    by (simp add: echoTracker_def respondTracked_def)
  note t' = C10_cart_abandoned_webhook[where body = "JObj [(''cartItems'', JArr [])]"
      and track = echoTracker]
  have f: "\<not> truthyProp (getProp (JObj [(''cartItems'', JArr [])]) ''customerId'')"
    by (simp add: truthyProp_def)
  have b: "post_cartAbandoned echoTracker (Inr (JObj [(''cartItems'', JArr [])]))
        = badRequest (ErrorBody ''Missing required fields: customerId, cartItems'' None)"
    using t' f by simp
  show ?thesis using p a a' b f by simp
qed

end
